theory Spec2Isabelle
  imports Main
begin

section \<open>Values, thrown errors and the outside world\<close>

text \<open>
  The nodes of n8n-nodes-stellar are glue between the n8n host and the Stellar SDK.
  Values that cross these boundaries (node parameters, SDK objects, responses of Horizon
  and of the Soroban RPC server, output items) are modelled as JavaScript values.
  The nodes do no arithmetic. A number of the model is a safe integer (of magnitude
  below \<open>2^53\<close>), which \<open>String\<close> prints with all its digits; other numbers
  (fractions, \<open>NaN\<close>, magnitudes that \<open>String\<close> prints with an exponent) have no
  value in the model.
\<close>

datatype json =
    JUndefined
  | JNull
  | JBool bool
  | JNum int
  | JStr string
  | JArr "json list"
  | JObj "(string \<times> json) list"

text \<open>
  A thrown value is either an \<open>Error\<close> object (with its message) or some other value,
  of which only its \<open>String(...)\<close> rendering is kept: this is all the catch block of
  \<open>execute\<close> reads (\<open>error instanceof Error ? error.message : String(error)\<close>).
\<close>

datatype thrown = JsError string | NonError string

text \<open>
  Every call into the SDK, axios, the console or the host's emitter is recorded, by the
  text of the called member and its arguments. What such a call answers is decided by
  the outside world: a function of the calls made so far and of the call itself, that
  either throws or returns a value.
\<close>

datatype call = Call string "json list"

type_synonym sdk = "call list \<Rightarrow> call \<Rightarrow> thrown + json"

record world =
  calls :: "call list"
  globals :: "string list"
  streams :: "bool list"

type_synonym 'a io = "world \<Rightarrow> (thrown + 'a) \<times> world"

definition ret :: "'a \<Rightarrow> 'a io" where
  "ret x = (\<lambda>w. (Inr x, w))"

definition throw :: "thrown \<Rightarrow> 'a io" where
  "throw e = (\<lambda>w. (Inl e, w))"

definition andThen :: "'a io \<Rightarrow> ('a \<Rightarrow> 'b io) \<Rightarrow> 'b io" where
  "andThen m f = (\<lambda>w. case m w of (Inl e, w') \<Rightarrow> (Inl e, w') | (Inr x, w') \<Rightarrow> f x w')"

definition ext :: "sdk \<Rightarrow> string \<Rightarrow> json list \<Rightarrow> json io" where
  "ext env name args =
     (\<lambda>w. (env (calls w) (Call name args), w\<lparr>calls := calls w @ [Call name args]\<rparr>))"

text \<open>The calls that go over the network (Horizon, Soroban RPC, Friendbot).\<close>

definition network_calls :: "string list" where
  "network_calls =
     [''server.loadAccount'', ''server.submitTransaction'', ''axios.get'',
      ''server.assets().forCode().forIssuer().call'', ''server.orderbook().call'',
      ''server.offers().forAccount().call'', ''server.trades().limit(50).order(desc).call'',
      ''server.trades().forAssetPair().limit(50).order(desc).call'',
      ''server.transactions().transaction().call'',
      ''server.ledgers().order(desc).limit(1).call'', ''server.ledgers().ledger().call'',
      ''server.feeStats'', ''sorobanServer.getHealth'', ''sorobanServer.getAccount'',
      ''sorobanServer.simulateTransaction'', ''sorobanServer.sendTransaction'',
      ''streamBuilder.cursor().stream'']"

fun is_network_call :: "call \<Rightarrow> bool" where
  "is_network_call (Call name args) = (name \<in> set network_calls)"

subsection \<open>JavaScript coercions used by the nodes\<close>

fun truthy :: "json \<Rightarrow> bool" where
  "truthy JUndefined = False"
| "truthy JNull = False"
| "truthy (JBool b) = b"
| "truthy (JNum n) = (n \<noteq> 0)"
| "truthy (JStr s) = (s \<noteq> [])"
| "truthy (JArr xs) = True"
| "truthy (JObj kvs) = True"

text \<open>An optional string argument (\<open>customUrl?: string\<close>) is truthy when present and not empty.\<close>

fun truthy_opt :: "string option \<Rightarrow> bool" where
  "truthy_opt None = False"
| "truthy_opt (Some s) = (s \<noteq> [])"

fun string_of_nat :: "nat \<Rightarrow> string" where
  "string_of_nat n =
     (if n < 10 then [char_of (48 + n)]
      else string_of_nat (n div 10) @ [char_of (48 + n mod 10)])"

definition string_of_int :: "int \<Rightarrow> string" where
  "string_of_int i = (if i < 0 then CHR ''-'' # string_of_nat (nat (- i)) else string_of_nat (nat i))"

fun join_comma :: "string list \<Rightarrow> string" where
  "join_comma [] = []"
| "join_comma [s] = s"
| "join_comma (s # t # ss) = s @ '','' @ join_comma (t # ss)"

text \<open>
  \<open>String(v)\<close>, as a template literal applies it (on the numbers of the model, the
  safe integers).
\<close>

fun toStr :: "json \<Rightarrow> string" where
  "toStr JUndefined = ''undefined''"
| "toStr JNull = ''null''"
| "toStr (JBool b) = (if b then ''true'' else ''false'')"
| "toStr (JNum n) = string_of_int n"
| "toStr (JStr s) = s"
| "toStr (JArr xs) =
     join_comma (map (\<lambda>x. if x = JUndefined \<or> x = JNull then [] else toStr x) xs)"
| "toStr (JObj kvs) = ''[object Object]''"

text \<open>
  The TypeError of a property read on \<open>undefined\<close> or \<open>null\<close>, with the message of
  Node: \<open>Cannot read properties of undefined (reading 'k')\<close>.
\<close>

definition cannotRead :: "string \<Rightarrow> string \<Rightarrow> thrown" where
  "cannotRead what k =
     JsError (''Cannot read properties of '' @ what @ '' (reading '' @ [CHR 0x27] @ k @ [CHR 0x27] @ '')'')"

text \<open>
  Property access \<open>v.k\<close> for a name \<open>k\<close> that no primitive value and no array
  has (the nodes read \<open>id\<close>, \<open>records\<close>, \<open>data\<close>, \<open>destination\<close>, \<open>error\<close>
  and the like): a TypeError on \<open>undefined\<close> and \<open>null\<close>, \<open>undefined\<close> where the
  property is missing.
\<close>

definition getProp :: "json \<Rightarrow> string \<Rightarrow> json io" where
  "getProp v k =
     (case v of
        JObj kvs \<Rightarrow> ret (case map_of kvs k of Some x \<Rightarrow> x | None \<Rightarrow> JUndefined)
      | JUndefined \<Rightarrow> throw (cannotRead ''undefined'' k)
      | JNull \<Rightarrow> throw (cannotRead ''null'' k)
      | _ \<Rightarrow> ret JUndefined)"

text \<open>
  \<open>v[0]\<close>: the first element of an array, the first character of a string, the
  property \<open>0\<close> of an object, \<open>undefined\<close> where there is none.
\<close>

definition index0 :: "json \<Rightarrow> json io" where
  "index0 v =
     (case v of
        JArr xs \<Rightarrow> ret (case xs of [] \<Rightarrow> JUndefined | x # _ \<Rightarrow> x)
      | JStr s \<Rightarrow> ret (case s of [] \<Rightarrow> JUndefined | c # _ \<Rightarrow> JStr [c])
      | JObj kvs \<Rightarrow> ret (case map_of kvs ''0'' of Some x \<Rightarrow> x | None \<Rightarrow> JUndefined)
      | JUndefined \<Rightarrow> throw (cannotRead ''undefined'' ''0'')
      | JNull \<Rightarrow> throw (cannotRead ''null'' ''0'')
      | _ \<Rightarrow> ret JUndefined)"

text \<open>
  \<open>l > 0\<close> for a value \<open>l\<close> read as a length. A string, an array or an object
  would be converted to a floating point number first; the model has none and takes
  the comparison to fail on them. The SDK types every length read here as a number.
\<close>

fun positive :: "json \<Rightarrow> bool" where
  "positive (JNum n) = (0 < n)"
| "positive (JBool b) = b"
| "positive v = False"

text \<open>\<open>v.length > 0\<close>\<close>

definition lengthPositive :: "json \<Rightarrow> bool io" where
  "lengthPositive v =
     (case v of
        JArr xs \<Rightarrow> ret (xs \<noteq> [])
      | JStr s \<Rightarrow> ret (s \<noteq> [])
      | JObj kvs \<Rightarrow> ret (case map_of kvs ''length'' of Some l \<Rightarrow> positive l | None \<Rightarrow> False)
      | JUndefined \<Rightarrow> throw (cannotRead ''undefined'' ''length'')
      | JNull \<Rightarrow> throw (cannotRead ''null'' ''length'')
      | _ \<Rightarrow> ret False)"

fun mapM_io :: "('a \<Rightarrow> 'b io) \<Rightarrow> 'a list \<Rightarrow> 'b list io" where
  "mapM_io f [] = ret []"
| "mapM_io f (x # xs) = andThen (f x) (\<lambda>y. andThen (mapM_io f xs) (\<lambda>ys. ret (y # ys)))"

text \<open>
  \<open>name.map(f)\<close> on the value \<open>v\<close> of the variable \<open>name\<close>, parsed from JSON:
  defined on arrays, a TypeError elsewhere, with the message of Node.
\<close>

definition array_map :: "string \<Rightarrow> (json \<Rightarrow> json io) \<Rightarrow> json \<Rightarrow> json list io" where
  "array_map name f v =
     (case v of
        JArr xs \<Rightarrow> mapM_io f xs
      | JUndefined \<Rightarrow> throw (cannotRead ''undefined'' ''map'')
      | JNull \<Rightarrow> throw (cannotRead ''null'' ''map'')
      | _ \<Rightarrow> throw (JsError (name @ ''.map is not a function'')))"

section \<open>constants/networks.ts\<close>

datatype NetworkType = Public | Testnet | Futurenet | Custom

text \<open>
  \<open>StellarSdk.Networks\<close>: the passphrase constants of the SDK. They are not part of
  the repository, so the resolver takes them as a parameter.
\<close>

record Networks =
  PUBLIC :: string
  TESTNET :: string
  FUTURENET :: string

fun NETWORK_PASSPHRASES :: "Networks \<Rightarrow> NetworkType \<Rightarrow> string option" where
  "NETWORK_PASSPHRASES sdkn Public = Some (PUBLIC sdkn)"
| "NETWORK_PASSPHRASES sdkn Testnet = Some (TESTNET sdkn)"
| "NETWORK_PASSPHRASES sdkn Futurenet = Some (FUTURENET sdkn)"
| "NETWORK_PASSPHRASES sdkn Custom = None"

fun HORIZON_URLS :: "NetworkType \<Rightarrow> string option" where
  "HORIZON_URLS Public = Some ''https://horizon.stellar.org''"
| "HORIZON_URLS Testnet = Some ''https://horizon-testnet.stellar.org''"
| "HORIZON_URLS Futurenet = Some ''https://horizon-futurenet.stellar.org''"
| "HORIZON_URLS Custom = None"

fun SOROBAN_RPC_URLS :: "NetworkType \<Rightarrow> string option" where
  "SOROBAN_RPC_URLS Public = Some ''https://soroban.stellar.org''"
| "SOROBAN_RPC_URLS Testnet = Some ''https://soroban-testnet.stellar.org''"
| "SOROBAN_RPC_URLS Futurenet = Some ''https://rpc-futurenet.stellar.org''"
| "SOROBAN_RPC_URLS Custom = None"

fun FRIENDBOT_URLS :: "NetworkType \<Rightarrow> string option" where
  "FRIENDBOT_URLS Testnet = Some ''https://friendbot.stellar.org''"
| "FRIENDBOT_URLS Futurenet = Some ''https://friendbot-futurenet.stellar.org''"
| "FRIENDBOT_URLS n = None"

definition baseFee :: int where "baseFee = 100"

definition timeout :: int where "timeout = 30"

text \<open>
  The three resolvers. In the branch after the \<open>custom\<close> test the table lookup is always
  defined; \<open>the\<close> is applied to \<open>Some\<close> only.
\<close>

definition getHorizonUrl :: "NetworkType \<Rightarrow> string option \<Rightarrow> thrown + string" where
  "getHorizonUrl network customUrl =
     (if network = Custom then
        (if \<not> truthy_opt customUrl then Inl (JsError ''Custom Horizon URL required for custom network'')
         else Inr (the customUrl))
      else Inr (the (HORIZON_URLS network)))"

definition getNetworkPassphrase :: "Networks \<Rightarrow> NetworkType \<Rightarrow> string option \<Rightarrow> thrown + string" where
  "getNetworkPassphrase sdkn network customPassphrase =
     (if network = Custom then
        (if \<not> truthy_opt customPassphrase then
           Inl (JsError ''Custom network passphrase required for custom network'')
         else Inr (the customPassphrase))
      else Inr (the (NETWORK_PASSPHRASES sdkn network)))"

definition getSorobanRpcUrl :: "NetworkType \<Rightarrow> string option \<Rightarrow> thrown + string" where
  "getSorobanRpcUrl network customUrl =
     (if network = Custom then
        (if \<not> truthy_opt customUrl then Inl (JsError ''Custom Soroban RPC URL required for custom network'')
         else Inr (the customUrl))
      else Inr (the (SOROBAN_RPC_URLS network)))"

section \<open>The host's view of a node\<close>

text \<open>
  The n8n host resolves credentials and parameters. An item is seen by the node through
  its resolved parameters only: \<open>getNodeParameter(name, i)\<close> throws when the parameter
  has no value and no fallback is given, and returns the fallback otherwise. The other
  accessors of the host (\<open>getInputData\<close>, \<open>getCredentials\<close>, \<open>continueOnFail\<close>)
  return what the host holds. An optional field of the credentials is absent
  (\<open>None\<close>) or a string, which is empty when the field was left blank.
\<close>

type_synonym item = "string \<rightharpoonup> json"

record credentials =
  network :: NetworkType
  customHorizonUrl :: "string option"
  customNetworkPassphrase :: "string option"
  secretKey :: "string option"
  sorobanRpcUrl :: "string option"

record host =
  getInputData :: "item list"
  getCredentials :: credentials
  continueOnFail :: bool

definition getNodeParameter :: "item \<Rightarrow> string \<Rightarrow> json option \<Rightarrow> json io" where
  "getNodeParameter it name fallback =
     (case it name of
        Some v \<Rightarrow> ret v
      | None \<Rightarrow>
          (case fallback of
             Some d \<Rightarrow> ret d
           | None \<Rightarrow> throw (JsError (''Could not get parameter: '' @ name))))"

definition licensing_notice :: string where
  "licensing_notice =
     ''[Velocity BPA Licensing Notice]'' @ [CHR 0x0A, CHR 0x0A] @
     ''This n8n node is licensed under the Business Source License 1.1 (BSL 1.1).'' @ [CHR 0x0A, CHR 0x0A] @
     ''Use of this node by for-profit organizations in production environments requires a commercial license from Velocity BPA.'' @ [CHR 0x0A, CHR 0x0A] @
     ''For licensing information, visit https://velobpa.com/licensing or contact licensing@velobpa.com.'' @ [CHR 0x0A]"

text \<open>The notice is written once per process: a global flag, keyed by a symbol, guards it.\<close>

definition logLicensingNotice :: "string \<Rightarrow> unit io" where
  "logLicensingNotice key =
     (\<lambda>w. if key \<in> set (globals w) then (Inr (), w)
          else (Inr (), w\<lparr>calls := calls w @ [Call ''console.warn'' [JStr licensing_notice]],
                          globals := key # globals w\<rparr>))"

section \<open>Stellar.node.ts: the operation dispatcher\<close>

subsection \<open>SDK expressions that recur in the branches\<close>

definition publicKey :: "sdk \<Rightarrow> json \<Rightarrow> json io" where
  "publicKey env keypair = ext env ''keypair.publicKey'' [keypair]"

definition loadAccount :: "sdk \<Rightarrow> json \<Rightarrow> json \<Rightarrow> json io" where
  "loadAccount env server keypair =
     andThen (publicKey env keypair) (\<lambda>pk. ext env ''server.loadAccount'' [server, pk])"

definition newTransactionBuilder :: "sdk \<Rightarrow> json \<Rightarrow> string \<Rightarrow> json io" where
  "newTransactionBuilder env sourceAccount networkPassphrase =
     ext env ''new TransactionBuilder''
       [sourceAccount,
        JObj [(''fee'', JStr (string_of_int baseFee)),
              (''networkPassphrase'', JStr networkPassphrase)]]"

definition addOperation :: "sdk \<Rightarrow> json \<Rightarrow> json \<Rightarrow> json io" where
  "addOperation env builder op = ext env ''builder.addOperation'' [builder, op]"

definition setTimeout_build :: "sdk \<Rightarrow> json \<Rightarrow> json io" where
  "setTimeout_build env builder =
     andThen (ext env ''builder.setTimeout'' [builder, JNum timeout])
       (\<lambda>b. ext env ''builder.build'' [b])"

text \<open>\<open>transaction.sign(keypair)\<close> changes the transaction; the model returns the signed one.\<close>

definition sign :: "sdk \<Rightarrow> json \<Rightarrow> json \<Rightarrow> json io" where
  "sign env transaction keypair = ext env ''transaction.sign'' [transaction, keypair]"

definition submitTransaction :: "sdk \<Rightarrow> json \<Rightarrow> json \<Rightarrow> json io" where
  "submitTransaction env server transaction =
     ext env ''server.submitTransaction'' [server, transaction]"

text \<open>
  The block shared by the branches that submit one operation: load the source account,
  open a builder, build the operation (\<open>mkop\<close>), add it, set the timeout, build, sign
  and submit.
\<close>

definition submitOperation :: "sdk \<Rightarrow> json \<Rightarrow> json \<Rightarrow> string \<Rightarrow> json io \<Rightarrow> json io" where
  "submitOperation env server keypair networkPassphrase mkop =
     andThen (loadAccount env server keypair) (\<lambda>sourceAccount.
     andThen (newTransactionBuilder env sourceAccount networkPassphrase) (\<lambda>builder.
     andThen mkop (\<lambda>op.
     andThen (addOperation env builder op) (\<lambda>builder1.
     andThen (setTimeout_build env builder1) (\<lambda>transaction.
     andThen (sign env transaction keypair) (\<lambda>signed.
     submitTransaction env server signed))))))"

text \<open>\<open>code === 'XLM' || !issuer ? Asset.native() : new Asset(code, issuer)\<close>\<close>

definition assetOf :: "sdk \<Rightarrow> json \<Rightarrow> json \<Rightarrow> json io" where
  "assetOf env code issuer =
     (if code = JStr ''XLM'' \<or> \<not> truthy issuer then ext env ''Asset.native'' []
      else ext env ''new Asset'' [code, issuer])"

definition secretKeyRequired :: "string \<Rightarrow> json io" where
  "secretKeyRequired suffix = throw (JsError (''Secret key required'' @ suffix))"

subsection \<open>Account operations\<close>

definition generateKeypair :: "sdk \<Rightarrow> json io" where
  "generateKeypair env =
     andThen (ext env ''Keypair.random'' []) (\<lambda>newKeypair.
     andThen (ext env ''keypair.publicKey'' [newKeypair]) (\<lambda>pk.
     andThen (ext env ''keypair.secret'' [newKeypair]) (\<lambda>sk.
     ret (JObj [(''publicKey'', pk), (''secretKey'', sk)]))))"

definition getInfo :: "sdk \<Rightarrow> json \<Rightarrow> item \<Rightarrow> json io" where
  "getInfo env server it =
     andThen (getNodeParameter it ''accountId'' None) (\<lambda>accountId.
     andThen (ext env ''server.loadAccount'' [server, accountId]) (\<lambda>account.
     andThen (mapM_io (\<lambda>(k, p). andThen (getProp account p) (\<lambda>x. ret (k, x)))
                [(''id'', ''id''), (''accountId'', ''account_id''), (''sequence'', ''sequence''),
                 (''balances'', ''balances''), (''subentryCount'', ''subentry_count''),
                 (''thresholds'', ''thresholds''), (''signers'', ''signers''),
                 (''data'', ''data''), (''flags'', ''flags'')])
       (\<lambda>kvs. ret (JObj kvs))))"

definition fundTestnet :: "sdk \<Rightarrow> NetworkType \<Rightarrow> item \<Rightarrow> json io" where
  "fundTestnet env net it =
     andThen (getNodeParameter it ''accountId'' None) (\<lambda>accountId.
     (case FRIENDBOT_URLS net of
        None \<Rightarrow> throw (JsError ''Friendbot only available on testnet and futurenet'')
      | Some friendbotUrl \<Rightarrow>
          andThen (ext env ''axios.get'' [JStr (friendbotUrl @ ''?addr='' @ toStr accountId)])
            (\<lambda>response. getProp response ''data'')))"

definition createAccount :: "sdk \<Rightarrow> json \<Rightarrow> json option \<Rightarrow> string \<Rightarrow> item \<Rightarrow> json io" where
  "createAccount env server keypair networkPassphrase it =
     (case keypair of
        None \<Rightarrow> secretKeyRequired '' for creating accounts''
      | Some kp \<Rightarrow>
          andThen (getNodeParameter it ''destination'' None) (\<lambda>destination.
          andThen (getNodeParameter it ''amount'' None) (\<lambda>amount.
          submitOperation env server kp networkPassphrase
            (ext env ''Operation.createAccount''
               [JObj [(''destination'', destination), (''startingBalance'', amount)]]))))"

definition mergeAccount :: "sdk \<Rightarrow> json \<Rightarrow> json option \<Rightarrow> string \<Rightarrow> item \<Rightarrow> json io" where
  "mergeAccount env server keypair networkPassphrase it =
     (case keypair of
        None \<Rightarrow> secretKeyRequired '' for merging accounts''
      | Some kp \<Rightarrow>
          andThen (getNodeParameter it ''destination'' None) (\<lambda>destination.
          submitOperation env server kp networkPassphrase
            (ext env ''Operation.accountMerge'' [JObj [(''destination'', destination)]])))"

definition setData :: "sdk \<Rightarrow> json \<Rightarrow> json option \<Rightarrow> string \<Rightarrow> item \<Rightarrow> json io" where
  "setData env server keypair networkPassphrase it =
     (case keypair of
        None \<Rightarrow> secretKeyRequired '' for setting data''
      | Some kp \<Rightarrow>
          andThen (getNodeParameter it ''dataName'' None) (\<lambda>dataName.
          andThen (getNodeParameter it ''dataValue'' None) (\<lambda>dataValue.
          submitOperation env server kp networkPassphrase
            (ext env ''Operation.manageData''
               [JObj [(''name'', dataName),
                      (''value'', if truthy dataValue then dataValue else JNull)]]))))"

definition setOptions :: "sdk \<Rightarrow> json \<Rightarrow> json option \<Rightarrow> string \<Rightarrow> item \<Rightarrow> json io" where
  "setOptions env server keypair networkPassphrase it =
     (case keypair of
        None \<Rightarrow> secretKeyRequired '' for setting options''
      | Some kp \<Rightarrow>
          andThen (getNodeParameter it ''homeDomain'' (Some (JStr []))) (\<lambda>homeDomain.
          andThen (getNodeParameter it ''inflationDest'' (Some (JStr []))) (\<lambda>inflationDest.
          andThen (loadAccount env server kp) (\<lambda>sourceAccount.
          andThen (newTransactionBuilder env sourceAccount networkPassphrase) (\<lambda>builder.
          andThen (if truthy homeDomain then
                     andThen (ext env ''Operation.setOptions'' [JObj [(''homeDomain'', homeDomain)]])
                       (addOperation env builder)
                   else ret builder) (\<lambda>builder1.
          andThen (if truthy inflationDest then
                     andThen (ext env ''Operation.setOptions'' [JObj [(''inflationDest'', inflationDest)]])
                       (addOperation env builder1)
                   else ret builder1) (\<lambda>builder2.
          andThen (if \<not> truthy homeDomain \<and> \<not> truthy inflationDest then
                     andThen (ext env ''Operation.setOptions'' [JObj []])
                       (addOperation env builder2)
                   else ret builder2) (\<lambda>builder3.
          andThen (setTimeout_build env builder3) (\<lambda>transaction.
          andThen (sign env transaction kp) (\<lambda>signed.
          submitTransaction env server signed))))))))))"

definition account_ops ::
  "sdk \<Rightarrow> NetworkType \<Rightarrow> json \<Rightarrow> json option \<Rightarrow> string \<Rightarrow> json \<Rightarrow> item \<Rightarrow> json io" where
  "account_ops env net server keypair networkPassphrase operation it =
     (if operation = JStr ''generateKeypair'' then generateKeypair env
      else if operation = JStr ''getInfo'' then getInfo env server it
      else if operation = JStr ''fundTestnet'' then fundTestnet env net it
      else if operation = JStr ''createAccount'' then createAccount env server keypair networkPassphrase it
      else if operation = JStr ''mergeAccount'' then mergeAccount env server keypair networkPassphrase it
      else if operation = JStr ''setData'' then setData env server keypair networkPassphrase it
      else if operation = JStr ''setOptions'' then setOptions env server keypair networkPassphrase it
      else throw (JsError (''Unknown account operation: '' @ toStr operation)))"

subsection \<open>Payment operations\<close>

definition sendPayment :: "sdk \<Rightarrow> json \<Rightarrow> json option \<Rightarrow> string \<Rightarrow> item \<Rightarrow> json io" where
  "sendPayment env server keypair networkPassphrase it =
     (case keypair of
        None \<Rightarrow> secretKeyRequired '' for payments''
      | Some kp \<Rightarrow>
          andThen (getNodeParameter it ''destination'' None) (\<lambda>destination.
          andThen (getNodeParameter it ''amount'' None) (\<lambda>amount.
          andThen (getNodeParameter it ''assetCode'' None) (\<lambda>assetCode.
          andThen (getNodeParameter it ''assetIssuer'' (Some (JStr []))) (\<lambda>assetIssuer.
          andThen (assetOf env assetCode assetIssuer) (\<lambda>asset.
          submitOperation env server kp networkPassphrase
            (ext env ''Operation.payment''
               [JObj [(''destination'', destination), (''asset'', asset), (''amount'', amount)]])))))))"

definition pathPayment :: "sdk \<Rightarrow> json \<Rightarrow> json option \<Rightarrow> string \<Rightarrow> item \<Rightarrow> json io" where
  "pathPayment env server keypair networkPassphrase it =
     (case keypair of
        None \<Rightarrow> secretKeyRequired '' for path payments''
      | Some kp \<Rightarrow>
          andThen (getNodeParameter it ''destination'' None) (\<lambda>destination.
          andThen (getNodeParameter it ''amount'' None) (\<lambda>amount.
          andThen (getNodeParameter it ''assetCode'' None) (\<lambda>assetCode.
          andThen (getNodeParameter it ''assetIssuer'' (Some (JStr []))) (\<lambda>assetIssuer.
          andThen (assetOf env assetCode assetIssuer) (\<lambda>destAsset.
          submitOperation env server kp networkPassphrase
            (andThen (ext env ''Asset.native'' []) (\<lambda>sendAsset.
             ext env ''Operation.pathPaymentStrictReceive''
               [JObj [(''sendAsset'', sendAsset), (''sendMax'', amount),
                      (''destination'', destination), (''destAsset'', destAsset),
                      (''destAmount'', amount), (''path'', JArr [])]]))))))))"

definition createClaimableBalance ::
  "sdk \<Rightarrow> json \<Rightarrow> json option \<Rightarrow> string \<Rightarrow> item \<Rightarrow> json io" where
  "createClaimableBalance env server keypair networkPassphrase it =
     (case keypair of
        None \<Rightarrow> secretKeyRequired []
      | Some kp \<Rightarrow>
          andThen (getNodeParameter it ''amount'' None) (\<lambda>amount.
          andThen (getNodeParameter it ''assetCode'' None) (\<lambda>assetCode.
          andThen (getNodeParameter it ''assetIssuer'' (Some (JStr []))) (\<lambda>assetIssuer.
          andThen (getNodeParameter it ''claimants'' None) (\<lambda>claimantsJson.
          andThen (assetOf env assetCode assetIssuer) (\<lambda>asset.
          andThen (ext env ''JSON.parse'' [claimantsJson]) (\<lambda>claimantsData.
          andThen (array_map ''claimantsData''
                     (\<lambda>c. andThen (getProp c ''destination'') (\<lambda>d.
                          andThen (ext env ''Claimant.predicateUnconditional'' []) (\<lambda>p.
                          ext env ''new Claimant'' [d, p])))
                     claimantsData) (\<lambda>claimants.
          submitOperation env server kp networkPassphrase
            (ext env ''Operation.createClaimableBalance''
               [JObj [(''asset'', asset), (''amount'', amount),
                      (''claimants'', JArr claimants)]])))))))))"

definition claimBalance :: "sdk \<Rightarrow> json \<Rightarrow> json option \<Rightarrow> string \<Rightarrow> item \<Rightarrow> json io" where
  "claimBalance env server keypair networkPassphrase it =
     (case keypair of
        None \<Rightarrow> secretKeyRequired []
      | Some kp \<Rightarrow>
          andThen (getNodeParameter it ''balanceId'' None) (\<lambda>balanceId.
          submitOperation env server kp networkPassphrase
            (ext env ''Operation.claimClaimableBalance'' [JObj [(''balanceId'', balanceId)]])))"

definition payment_ops ::
  "sdk \<Rightarrow> json \<Rightarrow> json option \<Rightarrow> string \<Rightarrow> json \<Rightarrow> item \<Rightarrow> json io" where
  "payment_ops env server keypair networkPassphrase operation it =
     (if operation = JStr ''sendPayment'' then sendPayment env server keypair networkPassphrase it
      else if operation = JStr ''pathPayment'' then pathPayment env server keypair networkPassphrase it
      else if operation = JStr ''createClaimableBalance'' then
        createClaimableBalance env server keypair networkPassphrase it
      else if operation = JStr ''claimBalance'' then claimBalance env server keypair networkPassphrase it
      else throw (JsError (''Unknown payment operation: '' @ toStr operation)))"

subsection \<open>Asset operations\<close>

definition changeTrust :: "sdk \<Rightarrow> json \<Rightarrow> json option \<Rightarrow> string \<Rightarrow> item \<Rightarrow> json io" where
  "changeTrust env server keypair networkPassphrase it =
     (case keypair of
        None \<Rightarrow> secretKeyRequired '' for trustlines''
      | Some kp \<Rightarrow>
          andThen (getNodeParameter it ''assetCode'' None) (\<lambda>assetCode.
          andThen (getNodeParameter it ''assetIssuer'' None) (\<lambda>assetIssuer.
          andThen (getNodeParameter it ''trustLimit'' (Some (JStr []))) (\<lambda>trustLimit.
          if \<not> truthy assetIssuer then throw (JsError ''Asset issuer required for non-native assets'')
          else
            andThen (ext env ''new Asset'' [assetCode, assetIssuer]) (\<lambda>asset.
            andThen (loadAccount env server kp) (\<lambda>sourceAccount.
            andThen (newTransactionBuilder env sourceAccount networkPassphrase) (\<lambda>builder.
            andThen (if truthy trustLimit then
                       andThen (ext env ''Operation.changeTrust''
                                  [JObj [(''asset'', asset), (''limit'', trustLimit)]])
                         (addOperation env builder)
                     else
                       andThen (ext env ''Operation.changeTrust'' [JObj [(''asset'', asset)]])
                         (addOperation env builder)) (\<lambda>builder1.
            andThen (setTimeout_build env builder1) (\<lambda>transaction.
            andThen (sign env transaction kp) (\<lambda>signed.
            submitTransaction env server signed))))))))))"

definition native_asset_info :: json where
  "native_asset_info = JObj [(''type'', JStr ''native''), (''code'', JStr ''XLM''), (''issuer'', JNull)]"

definition getAssetInfo :: "sdk \<Rightarrow> json \<Rightarrow> item \<Rightarrow> json io" where
  "getAssetInfo env server it =
     andThen (getNodeParameter it ''assetCode'' None) (\<lambda>assetCode.
     andThen (getNodeParameter it ''assetIssuer'' (Some (JStr []))) (\<lambda>assetIssuer.
     if assetCode = JStr ''XLM'' \<or> \<not> truthy assetIssuer then ret native_asset_info
     else
       andThen (ext env ''server.assets().forCode().forIssuer().call''
                  [server, assetCode, assetIssuer]) (\<lambda>assets.
       andThen (getProp assets ''records'') (\<lambda>records.
       andThen (lengthPositive records) (\<lambda>nonEmpty.
       if nonEmpty then index0 records
       else ret (JObj [(''error'', JStr ''Asset not found'')]))))))"

definition issueAsset :: "sdk \<Rightarrow> json \<Rightarrow> json option \<Rightarrow> string \<Rightarrow> item \<Rightarrow> json io" where
  "issueAsset env server keypair networkPassphrase it =
     (case keypair of
        None \<Rightarrow> secretKeyRequired []
      | Some kp \<Rightarrow>
          andThen (getNodeParameter it ''assetCode'' None) (\<lambda>assetCode.
          andThen (getNodeParameter it ''destination'' None) (\<lambda>destination.
          andThen (getNodeParameter it ''amount'' None) (\<lambda>amount.
          andThen (publicKey env kp) (\<lambda>pk.
          andThen (ext env ''new Asset'' [assetCode, pk]) (\<lambda>asset.
          submitOperation env server kp networkPassphrase
            (ext env ''Operation.payment''
               [JObj [(''destination'', destination), (''asset'', asset), (''amount'', amount)]])))))))"

definition asset_ops ::
  "sdk \<Rightarrow> json \<Rightarrow> json option \<Rightarrow> string \<Rightarrow> json \<Rightarrow> item \<Rightarrow> json io" where
  "asset_ops env server keypair networkPassphrase operation it =
     (if operation = JStr ''changeTrust'' then changeTrust env server keypair networkPassphrase it
      else if operation = JStr ''getAssetInfo'' then getAssetInfo env server it
      else if operation = JStr ''issueAsset'' then issueAsset env server keypair networkPassphrase it
      else throw (JsError (''Unknown asset operation: '' @ toStr operation)))"

subsection \<open>DEX operations\<close>

definition getOrderbook :: "sdk \<Rightarrow> json \<Rightarrow> item \<Rightarrow> json io" where
  "getOrderbook env server it =
     andThen (getNodeParameter it ''sellingAssetCode'' None) (\<lambda>sellingCode.
     andThen (getNodeParameter it ''sellingAssetIssuer'' (Some (JStr []))) (\<lambda>sellingIssuer.
     andThen (getNodeParameter it ''buyingAssetCode'' None) (\<lambda>buyingCode.
     andThen (getNodeParameter it ''buyingAssetIssuer'' (Some (JStr []))) (\<lambda>buyingIssuer.
     andThen (assetOf env sellingCode sellingIssuer) (\<lambda>selling.
     andThen (assetOf env buyingCode buyingIssuer) (\<lambda>buying.
     ext env ''server.orderbook().call'' [server, selling, buying]))))))"

text \<open>
  \<open>createSellOffer\<close> and \<open>createBuyOffer\<close> differ in the SDK operation and in the name
  of the amount field only.
\<close>

definition createOffer ::
  "string \<Rightarrow> string \<Rightarrow> sdk \<Rightarrow> json \<Rightarrow> json option \<Rightarrow> string \<Rightarrow> item \<Rightarrow> json io" where
  "createOffer opname amountField env server keypair networkPassphrase it =
     (case keypair of
        None \<Rightarrow> secretKeyRequired []
      | Some kp \<Rightarrow>
          andThen (getNodeParameter it ''sellingAssetCode'' None) (\<lambda>sellingCode.
          andThen (getNodeParameter it ''sellingAssetIssuer'' (Some (JStr []))) (\<lambda>sellingIssuer.
          andThen (getNodeParameter it ''buyingAssetCode'' None) (\<lambda>buyingCode.
          andThen (getNodeParameter it ''buyingAssetIssuer'' (Some (JStr []))) (\<lambda>buyingIssuer.
          andThen (getNodeParameter it ''amount'' None) (\<lambda>amount.
          andThen (getNodeParameter it ''price'' None) (\<lambda>price.
          andThen (assetOf env sellingCode sellingIssuer) (\<lambda>selling.
          andThen (assetOf env buyingCode buyingIssuer) (\<lambda>buying.
          submitOperation env server kp networkPassphrase
            (ext env opname
               [JObj [(''selling'', selling), (''buying'', buying),
                      (amountField, amount), (''price'', price)]]))))))))))"

definition createSellOffer :: "sdk \<Rightarrow> json \<Rightarrow> json option \<Rightarrow> string \<Rightarrow> item \<Rightarrow> json io" where
  "createSellOffer = createOffer ''Operation.manageSellOffer'' ''amount''"

definition createBuyOffer :: "sdk \<Rightarrow> json \<Rightarrow> json option \<Rightarrow> string \<Rightarrow> item \<Rightarrow> json io" where
  "createBuyOffer = createOffer ''Operation.manageBuyOffer'' ''buyAmount''"

definition cancelOffer :: "sdk \<Rightarrow> json \<Rightarrow> json option \<Rightarrow> string \<Rightarrow> item \<Rightarrow> json io" where
  "cancelOffer env server keypair networkPassphrase it =
     (case keypair of
        None \<Rightarrow> secretKeyRequired []
      | Some kp \<Rightarrow>
          andThen (getNodeParameter it ''offerId'' None) (\<lambda>offerId.
          submitOperation env server kp networkPassphrase
            (andThen (ext env ''Asset.native'' []) (\<lambda>selling.
             andThen (ext env ''Asset.native'' []) (\<lambda>buying.
             ext env ''Operation.manageSellOffer''
               [JObj [(''selling'', selling), (''buying'', buying), (''amount'', JStr ''0''),
                      (''price'', JStr ''1''), (''offerId'', offerId)]])))))"

definition listOffers :: "sdk \<Rightarrow> json \<Rightarrow> json option \<Rightarrow> json io" where
  "listOffers env server keypair =
     (case keypair of
        None \<Rightarrow> secretKeyRequired '' to list your offers''
      | Some kp \<Rightarrow>
          andThen (publicKey env kp) (\<lambda>pk.
          andThen (ext env ''server.offers().forAccount().call'' [server, pk]) (\<lambda>offers.
          andThen (getProp offers ''records'') (\<lambda>records.
          ret (JObj [(''offers'', records)])))))"

definition getTrades :: "sdk \<Rightarrow> json \<Rightarrow> item \<Rightarrow> json io" where
  "getTrades env server it =
     andThen (getNodeParameter it ''assetCode'' (Some (JStr ''XLM''))) (\<lambda>assetCode.
     andThen (getNodeParameter it ''assetIssuer'' (Some (JStr []))) (\<lambda>assetIssuer.
     andThen (if assetCode \<noteq> JStr ''XLM'' \<and> truthy assetIssuer then
                andThen (ext env ''new Asset'' [assetCode, assetIssuer]) (\<lambda>asset.
                andThen (ext env ''Asset.native'' []) (\<lambda>native.
                ext env ''server.trades().forAssetPair().limit(50).order(desc).call''
                  [server, native, asset]))
              else ext env ''server.trades().limit(50).order(desc).call'' [server]) (\<lambda>trades.
     andThen (getProp trades ''records'') (\<lambda>records.
     ret (JObj [(''trades'', records)])))))"

definition dex_ops ::
  "sdk \<Rightarrow> json \<Rightarrow> json option \<Rightarrow> string \<Rightarrow> json \<Rightarrow> item \<Rightarrow> json io" where
  "dex_ops env server keypair networkPassphrase operation it =
     (if operation = JStr ''getOrderbook'' then getOrderbook env server it
      else if operation = JStr ''createSellOffer'' then createSellOffer env server keypair networkPassphrase it
      else if operation = JStr ''createBuyOffer'' then createBuyOffer env server keypair networkPassphrase it
      else if operation = JStr ''cancelOffer'' then cancelOffer env server keypair networkPassphrase it
      else if operation = JStr ''listOffers'' then listOffers env server keypair
      else if operation = JStr ''getTrades'' then getTrades env server it
      else throw (JsError (''Unknown DEX operation: '' @ toStr operation)))"

subsection \<open>Transaction operations\<close>

definition getTransaction :: "sdk \<Rightarrow> json \<Rightarrow> item \<Rightarrow> json io" where
  "getTransaction env server it =
     andThen (getNodeParameter it ''transactionHash'' None) (\<lambda>txHash.
     ext env ''server.transactions().transaction().call'' [server, txHash])"

definition signXdr :: "sdk \<Rightarrow> json option \<Rightarrow> string \<Rightarrow> item \<Rightarrow> json io" where
  "signXdr env keypair networkPassphrase it =
     (case keypair of
        None \<Rightarrow> secretKeyRequired '' for signing''
      | Some kp \<Rightarrow>
          andThen (getNodeParameter it ''xdr'' None) (\<lambda>xdr.
          andThen (ext env ''TransactionBuilder.fromXDR'' [xdr, JStr networkPassphrase]) (\<lambda>transaction.
          andThen (sign env transaction kp) (\<lambda>signed.
          andThen (ext env ''transaction.toEnvelope().toXDR'' [signed, JStr ''base64'']) (\<lambda>signedXdr.
          andThen (ext env ''transaction.signatures.length'' [signed]) (\<lambda>n.
          ret (JObj [(''signedXdr'', signedXdr), (''signatures'', n)])))))))"

definition submitXdr :: "sdk \<Rightarrow> json \<Rightarrow> string \<Rightarrow> item \<Rightarrow> json io" where
  "submitXdr env server networkPassphrase it =
     andThen (getNodeParameter it ''xdr'' None) (\<lambda>xdr.
     andThen (ext env ''TransactionBuilder.fromXDR'' [xdr, JStr networkPassphrase]) (\<lambda>transaction.
     submitTransaction env server transaction))"

definition transaction_ops ::
  "sdk \<Rightarrow> json \<Rightarrow> json option \<Rightarrow> string \<Rightarrow> json \<Rightarrow> item \<Rightarrow> json io" where
  "transaction_ops env server keypair networkPassphrase operation it =
     (if operation = JStr ''getTransaction'' then getTransaction env server it
      else if operation = JStr ''signXdr'' then signXdr env keypair networkPassphrase it
      else if operation = JStr ''submitXdr'' then submitXdr env server networkPassphrase it
      else throw (JsError (''Unknown transaction operation: '' @ toStr operation)))"

subsection \<open>Ledger operations\<close>

definition getLatest :: "sdk \<Rightarrow> json \<Rightarrow> json io" where
  "getLatest env server =
     andThen (ext env ''server.ledgers().order(desc).limit(1).call'' [server]) (\<lambda>ledgers.
     andThen (getProp ledgers ''records'') (\<lambda>records.
     index0 records))"

definition getBySequence :: "sdk \<Rightarrow> json \<Rightarrow> item \<Rightarrow> json io" where
  "getBySequence env server it =
     andThen (getNodeParameter it ''ledgerSequence'' None) (\<lambda>sequence.
     ext env ''server.ledgers().ledger().call'' [server, sequence])"

definition getFeeStats :: "sdk \<Rightarrow> json \<Rightarrow> json io" where
  "getFeeStats env server = ext env ''server.feeStats'' [server]"

definition ledger_ops :: "sdk \<Rightarrow> json \<Rightarrow> json \<Rightarrow> item \<Rightarrow> json io" where
  "ledger_ops env server operation it =
     (if operation = JStr ''getLatest'' then getLatest env server
      else if operation = JStr ''getBySequence'' then getBySequence env server it
      else if operation = JStr ''getFeeStats'' then getFeeStats env server
      else throw (JsError (''Unknown ledger operation: '' @ toStr operation)))"

subsection \<open>Soroban operations\<close>

definition liftE :: "thrown + 'a \<Rightarrow> 'a io" where
  "liftE r = (\<lambda>w. (r, w))"

text \<open>\<open>typeof arg === 'string'\<close>, \<open>typeof arg === 'number'\<close>, or anything else.\<close>

definition toScVal :: "sdk \<Rightarrow> json \<Rightarrow> json io" where
  "toScVal env arg =
     (case arg of
        JStr s \<Rightarrow> ext env ''nativeToScVal'' [arg]
      | JNum n \<Rightarrow> ext env ''nativeToScVal'' [arg, JObj [(''type'', JStr ''i128'')]]
      | _ \<Rightarrow> ext env ''nativeToScVal'' [arg])"

definition contractCall ::
  "sdk \<Rightarrow> json \<Rightarrow> json option \<Rightarrow> string \<Rightarrow> json \<Rightarrow> item \<Rightarrow> json io" where
  "contractCall env sorobanServer keypair networkPassphrase operation it =
     (case keypair of
        None \<Rightarrow> secretKeyRequired '' for contract operations''
      | Some kp \<Rightarrow>
          andThen (getNodeParameter it ''contractId'' None) (\<lambda>contractId.
          andThen (getNodeParameter it ''functionName'' None) (\<lambda>functionName.
          andThen (getNodeParameter it ''functionArgs'' None) (\<lambda>functionArgs.
          andThen (ext env ''new Contract'' [contractId]) (\<lambda>contract.
          andThen (ext env ''JSON.parse'' [functionArgs]) (\<lambda>args.
          andThen (publicKey env kp) (\<lambda>pk.
          andThen (ext env ''sorobanServer.getAccount'' [sorobanServer, pk]) (\<lambda>sourceAccount.
          andThen (newTransactionBuilder env sourceAccount networkPassphrase) (\<lambda>builder.
          andThen (array_map ''args'' (toScVal env) args) (\<lambda>scvals.
          andThen (ext env ''contract.call'' (contract # functionName # scvals)) (\<lambda>op.
          andThen (addOperation env builder op) (\<lambda>builder1.
          andThen (setTimeout_build env builder1) (\<lambda>transaction.
          andThen (ext env ''sorobanServer.simulateTransaction'' [sorobanServer, transaction])
            (\<lambda>simResult.
          if operation = JStr ''simulateTransaction'' then ret simResult
          else
            andThen (ext env ''SorobanRpc.Api.isSimulationError'' [simResult]) (\<lambda>isError.
            if truthy isError then
              andThen (getProp simResult ''error'') (\<lambda>err.
              throw (JsError (''Simulation failed: '' @ toStr err)))
            else
              andThen (ext env ''SorobanRpc.assembleTransaction'' [transaction, simResult])
                (\<lambda>assembled.
              andThen (ext env ''builder.build'' [assembled]) (\<lambda>preparedTx.
              andThen (sign env preparedTx kp) (\<lambda>signed.
              ext env ''sorobanServer.sendTransaction'' [sorobanServer, signed]))))))))))))))))))"

text \<open>\<open>const rpcUrl = sorobanRpcUrl || getSorobanRpcUrl(network)\<close>\<close>

definition rpcUrlOf :: "credentials \<Rightarrow> thrown + string" where
  "rpcUrlOf cred =
     (case sorobanRpcUrl cred of
        Some u \<Rightarrow> if u \<noteq> [] then Inr u else getSorobanRpcUrl (network cred) None
      | None \<Rightarrow> getSorobanRpcUrl (network cred) None)"

definition soroban_ops ::
  "sdk \<Rightarrow> credentials \<Rightarrow> json option \<Rightarrow> string \<Rightarrow> json \<Rightarrow> item \<Rightarrow> json io" where
  "soroban_ops env cred keypair networkPassphrase operation it =
     andThen (liftE (rpcUrlOf cred)) (\<lambda>rpcUrl.
     andThen (ext env ''new SorobanRpc.Server'' [JStr rpcUrl]) (\<lambda>sorobanServer.
     if operation = JStr ''getHealth'' then ext env ''sorobanServer.getHealth'' [sorobanServer]
     else if operation = JStr ''simulateTransaction'' \<or> operation = JStr ''invokeContract'' then
       contractCall env sorobanServer keypair networkPassphrase operation it
     else throw (JsError (''Unknown soroban operation: '' @ toStr operation))))"

subsection \<open>One item: the body of the \<open>try\<close> block\<close>

definition process_item ::
  "sdk \<Rightarrow> credentials \<Rightarrow> json \<Rightarrow> json option \<Rightarrow> string \<Rightarrow> item \<Rightarrow> json io" where
  "process_item env cred server keypair networkPassphrase it =
     andThen (getNodeParameter it ''resource'' None) (\<lambda>resource.
     andThen (getNodeParameter it ''operation'' None) (\<lambda>operation.
     if resource = JStr ''account'' then
       account_ops env (network cred) server keypair networkPassphrase operation it
     else if resource = JStr ''payment'' then
       payment_ops env server keypair networkPassphrase operation it
     else if resource = JStr ''asset'' then
       asset_ops env server keypair networkPassphrase operation it
     else if resource = JStr ''dex'' then
       dex_ops env server keypair networkPassphrase operation it
     else if resource = JStr ''transaction'' then
       transaction_ops env server keypair networkPassphrase operation it
     else if resource = JStr ''ledger'' then
       ledger_ops env server operation it
     else if resource = JStr ''soroban'' then
       soroban_ops env cred keypair networkPassphrase operation it
     else throw (JsError (''Unknown resource: '' @ toStr resource))))"

subsection \<open>The loop over the items and \<open>execute\<close>\<close>

fun errorMessage :: "thrown \<Rightarrow> string" where
  "errorMessage (JsError message) = message"
| "errorMessage (NonError s) = s"

definition ok_item :: "json \<Rightarrow> json" where
  "ok_item result = JObj [(''json'', result)]"

definition error_item :: "thrown \<Rightarrow> json" where
  "error_item error = JObj [(''json'', JObj [(''error'', JStr (errorMessage error))])]"

text \<open>
  The \<open>for\<close> loop: \<open>returnData\<close> is the accumulator, the remaining items are the
  argument of the recursion. A \<open>throw\<close> out of the \<open>catch\<close> block ends the loop
  and \<open>execute\<close>.
\<close>

fun execute_loop ::
  "sdk \<Rightarrow> credentials \<Rightarrow> json \<Rightarrow> json option \<Rightarrow> string \<Rightarrow> bool \<Rightarrow> item list \<Rightarrow> json list
     \<Rightarrow> json list io" where
  "execute_loop env cred server keypair networkPassphrase cof [] returnData = ret returnData"
| "execute_loop env cred server keypair networkPassphrase cof (it # its) returnData =
     (\<lambda>w. case process_item env cred server keypair networkPassphrase it w of
            (Inr result, w') \<Rightarrow>
              execute_loop env cred server keypair networkPassphrase cof its
                (returnData @ [ok_item result]) w'
          | (Inl error, w') \<Rightarrow>
              if cof then
                execute_loop env cred server keypair networkPassphrase cof its
                  (returnData @ [error_item error]) w'
              else (Inl error, w'))"

definition keypairOf :: "sdk \<Rightarrow> string option \<Rightarrow> json option io" where
  "keypairOf env secret =
     (case secret of
        Some s \<Rightarrow>
          if s \<noteq> [] then andThen (ext env ''Keypair.fromSecret'' [JStr s]) (\<lambda>k. ret (Some k))
          else ret None
      | None \<Rightarrow> ret None)"

text \<open>
  What \<open>execute\<close> does before the loop, outside of any \<open>try\<close>: it resolves the
  Horizon URL and the passphrase, constructs the Horizon client and parses the secret
  key. The values the loop uses are returned: the client, the keypair (if a secret
  key is configured) and the passphrase.
\<close>

definition execute_setup :: "sdk \<Rightarrow> Networks \<Rightarrow> host \<Rightarrow> (json \<times> json option \<times> string) io" where
  "execute_setup env sdkn h =
     andThen (logLicensingNotice ''stellar.licensing.logged'') (\<lambda>_.
     andThen (liftE (getHorizonUrl (network (getCredentials h)) (customHorizonUrl (getCredentials h))))
       (\<lambda>horizonUrl.
     andThen (liftE (getNetworkPassphrase sdkn (network (getCredentials h))
                       (customNetworkPassphrase (getCredentials h)))) (\<lambda>networkPassphrase.
     andThen (ext env ''new Horizon.Server'' [JStr horizonUrl]) (\<lambda>server.
     andThen (keypairOf env (secretKey (getCredentials h))) (\<lambda>keypair.
     ret (server, keypair, networkPassphrase))))))"

definition execute :: "sdk \<Rightarrow> Networks \<Rightarrow> host \<Rightarrow> json list list io" where
  "execute env sdkn h =
     andThen (execute_setup env sdkn h) (\<lambda>(server, keypair, networkPassphrase).
     andThen (execute_loop env (getCredentials h) server keypair networkPassphrase
                (continueOnFail h) (getInputData h) []) (\<lambda>returnData.
     ret [returnData]))"

section \<open>StellarTrigger.node.ts: the subscription manager\<close>

text \<open>
  The trigger reads its credentials and its three parameters from the host. The SDK's
  \<open>stream\<close> opens a subscription and returns the function that closes it. The open
  subscriptions are kept in the world, one flag per subscription ever opened; a close
  function is modelled by the index of its subscription. Closing does not throw.
\<close>

record trigger_host =
  triggerCredentials :: credentials
  triggerParameters :: item

definition stream :: "sdk \<Rightarrow> json \<Rightarrow> json \<Rightarrow> nat io" where
  "stream env streamBuilder cursor =
     (\<lambda>w. case env (calls w) (Call ''streamBuilder.cursor().stream'' [streamBuilder, cursor]) of
            Inl e \<Rightarrow>
              (Inl e, w\<lparr>calls := calls w @ [Call ''streamBuilder.cursor().stream'' [streamBuilder, cursor]]\<rparr>)
          | Inr _ \<Rightarrow>
              (Inr (length (streams w)),
               w\<lparr>calls := calls w @ [Call ''streamBuilder.cursor().stream'' [streamBuilder, cursor]],
                 streams := streams w @ [True]\<rparr>))"

definition invokeClose :: "nat \<Rightarrow> unit io" where
  "invokeClose handle =
     (\<lambda>w. (Inr (), w\<lparr>calls := calls w @ [Call ''closeFunction'' [JNum (int handle)]],
                       streams := (streams w)[handle := False]\<rparr>))"

text \<open>The \<open>switch\<close> on the event, with the optional account filter.\<close>

definition streamBuilderOf :: "sdk \<Rightarrow> json \<Rightarrow> json \<Rightarrow> json \<Rightarrow> json io" where
  "streamBuilderOf env server event accountId =
     (if event = JStr ''transactions'' then
        (if truthy accountId then ext env ''server.transactions().forAccount'' [server, accountId]
         else ext env ''server.transactions'' [server])
      else if event = JStr ''operations'' then
        (if truthy accountId then ext env ''server.operations().forAccount'' [server, accountId]
         else ext env ''server.operations'' [server])
      else if event = JStr ''payments'' then
        (if truthy accountId then ext env ''server.payments().forAccount'' [server, accountId]
         else ext env ''server.payments'' [server])
      else if event = JStr ''effects'' then
        (if truthy accountId then ext env ''server.effects().forAccount'' [server, accountId]
         else ext env ''server.effects'' [server])
      else if event = JStr ''ledgers'' then ext env ''server.ledgers'' [server]
      else if event = JStr ''trades'' then ext env ''server.trades'' [server]
      else throw (JsError (''Unknown event type: '' @ toStr event)))"

text \<open>
  The two handlers given to \<open>stream\<close>. \<open>onmessage\<close> hands the record to the host
  (\<open>this.emit([this.helpers.returnJsonArray([record])])\<close>); \<open>onerror\<close> writes to the
  console. Neither reads nor writes \<open>closeFunction\<close>.
\<close>

definition onmessage :: "json \<Rightarrow> unit io" where
  "onmessage message =
     (\<lambda>w. (Inr (), w\<lparr>calls := calls w @
                       [Call ''this.emit'' [JArr [JArr [JObj [(''json'', message)]]]]]\<rparr>))"

definition onerror :: "thrown \<Rightarrow> unit io" where
  "onerror error =
     (\<lambda>w. (Inr (), w\<lparr>calls := calls w @
                       [Call ''console.error'' [JStr ''Stellar stream error:'', JStr (errorMessage error)]]\<rparr>))"

text \<open>
  \<open>startStreaming\<close> assigns the variable \<open>closeFunction\<close>, which starts undefined;
  the model returns the value assigned.
\<close>

definition startStreaming :: "sdk \<Rightarrow> json \<Rightarrow> json \<Rightarrow> json \<Rightarrow> json \<Rightarrow> nat option io" where
  "startStreaming env server event accountId cursor =
     andThen (streamBuilderOf env server event accountId) (\<lambda>streamBuilder.
     andThen (stream env streamBuilder cursor) (\<lambda>handle.
     ret (Some handle)))"

text \<open>The teardown callback closes over \<open>closeFunction\<close>.\<close>

definition closeCallback :: "nat option \<Rightarrow> unit io" where
  "closeCallback closeFunction =
     (case closeFunction of
        Some handle \<Rightarrow> invokeClose handle
      | None \<Rightarrow> ret ())"

text \<open>
  \<open>trigger\<close> returns the response \<open>{ closeFunction: closeCallback }\<close>: the value of
  the variable that the callback has captured.
\<close>

definition trigger :: "sdk \<Rightarrow> trigger_host \<Rightarrow> nat option io" where
  "trigger env h =
     andThen (logLicensingNotice ''stellarTrigger.licensing.logged'') (\<lambda>_.
     andThen (liftE (getHorizonUrl (network (triggerCredentials h))
                       (customHorizonUrl (triggerCredentials h)))) (\<lambda>horizonUrl.
     andThen (ext env ''new Horizon.Server'' [JStr horizonUrl]) (\<lambda>server.
     andThen (getNodeParameter (triggerParameters h) ''event'' None) (\<lambda>event.
     andThen (getNodeParameter (triggerParameters h) ''accountId'' (Some (JStr []))) (\<lambda>accountId.
     andThen (getNodeParameter (triggerParameters h) ''cursor'' None) (\<lambda>cursor.
     startStreaming env server event accountId cursor))))))"


section \<open>Notions used in the statements\<close>

text \<open>
  The operations that need a signing key, as the README lists them ("Requires Secret
  Key: Yes") and as the branches of \<open>execute\<close> test \<open>keypair\<close>.
\<close>

definition requires_key :: "json \<Rightarrow> json \<Rightarrow> bool" where
  "requires_key resource operation =
     ((resource, operation) \<in> set
        [(JStr ''account'', JStr ''createAccount''), (JStr ''account'', JStr ''mergeAccount''),
         (JStr ''account'', JStr ''setData''), (JStr ''account'', JStr ''setOptions''),
         (JStr ''payment'', JStr ''sendPayment''), (JStr ''payment'', JStr ''pathPayment''),
         (JStr ''payment'', JStr ''createClaimableBalance''), (JStr ''payment'', JStr ''claimBalance''),
         (JStr ''asset'', JStr ''changeTrust''), (JStr ''asset'', JStr ''issueAsset''),
         (JStr ''dex'', JStr ''createSellOffer''), (JStr ''dex'', JStr ''createBuyOffer''),
         (JStr ''dex'', JStr ''cancelOffer''), (JStr ''dex'', JStr ''listOffers''),
         (JStr ''transaction'', JStr ''signXdr''),
         (JStr ''soroban'', JStr ''invokeContract''), (JStr ''soroban'', JStr ''simulateTransaction'')])"

text \<open>A precondition error of the missing key: an \<open>Error\<close> whose message starts with
  "Secret key required".\<close>

fun starts_with :: "string \<Rightarrow> string \<Rightarrow> bool" where
  "starts_with [] s = True"
| "starts_with (p # ps) [] = False"
| "starts_with (p # ps) (c # cs) = (p = c \<and> starts_with ps cs)"

fun is_secret_key_error :: "thrown \<Rightarrow> bool" where
  "is_secret_key_error (JsError message) = starts_with ''Secret key required'' message"
| "is_secret_key_error (NonError s) = False"

text \<open>The network calls made so far.\<close>

definition network_calls_of :: "world \<Rightarrow> call list" where
  "network_calls_of w = filter is_network_call (calls w)"

text \<open>
  The world in which each item of a batch is processed: the first in the world after
  the set-up, each later one in the world its predecessor has left.
\<close>

fun item_worlds ::
  "sdk \<Rightarrow> credentials \<Rightarrow> json \<Rightarrow> json option \<Rightarrow> string \<Rightarrow> item list \<Rightarrow> world \<Rightarrow> world list" where
  "item_worlds env cred server keypair np [] w = []"
| "item_worlds env cred server keypair np (it # its) w =
     w # item_worlds env cred server keypair np its
           (snd (process_item env cred server keypair np it w))"

text \<open>
  The output item of one input item: \<open>{json: result}\<close> when its processing returns,
  \<open>{json: {error: message}}\<close> when it throws.
\<close>

definition output_of :: "thrown + json \<Rightarrow> json" where
  "output_of r =
     (case r of
        Inr result \<Rightarrow> JObj [(''json'', result)]
      | Inl error \<Rightarrow> JObj [(''json'', JObj [(''error'', JStr (errorMessage error))])])"

text \<open>
  An outside world whose answers do not depend on the calls made before, and a
  computation whose result (not its effect) is the same in every world.
\<close>

definition history_free :: "sdk \<Rightarrow> bool" where
  "history_free env = (\<forall>log log' c. env log c = env log' c)"

definition same_result :: "'a io \<Rightarrow> bool" where
  "same_result m = (\<forall>w w'. fst (m w) = fst (m w'))"

text \<open>
  The calls made on the Horizon client and on the Soroban RPC client: each takes the
  client as its first argument.
\<close>

definition horizon_calls :: "string list" where
  "horizon_calls =
     [''server.loadAccount'', ''server.submitTransaction'',
      ''server.assets().forCode().forIssuer().call'', ''server.orderbook().call'',
      ''server.offers().forAccount().call'', ''server.trades().limit(50).order(desc).call'',
      ''server.trades().forAssetPair().limit(50).order(desc).call'',
      ''server.transactions().transaction().call'',
      ''server.ledgers().order(desc).limit(1).call'', ''server.ledgers().ledger().call'',
      ''server.feeStats'']"

definition soroban_calls :: "string list" where
  "soroban_calls =
     [''sorobanServer.getHealth'', ''sorobanServer.getAccount'',
      ''sorobanServer.simulateTransaction'', ''sorobanServer.sendTransaction'']"

text \<open>
  The Soroban RPC URL of an execution, stated apart from the code: the URL of the
  credentials when that is set; otherwise the constant of the network, and a
  configuration error on the custom network.
\<close>

definition soroban_rpc_url :: "credentials \<Rightarrow> thrown + string" where
  "soroban_rpc_url cred =
     (if truthy_opt (sorobanRpcUrl cred) then Inr (the (sorobanRpcUrl cred))
      else if network cred = Custom then
        Inl (JsError ''Custom Soroban RPC URL required for custom network'')
      else Inr (the (SOROBAN_RPC_URLS (network cred))))"

text \<open>
  A call uses the Horizon client \<open>server\<close> and the passphrase \<open>np\<close>: a call on the
  Horizon client is made on \<open>server\<close>, a transaction builder is opened with the base
  fee and \<open>np\<close>, an envelope is read with \<open>np\<close>, and no second Horizon client is
  constructed.
\<close>

fun uses_horizon :: "json \<Rightarrow> string \<Rightarrow> call \<Rightarrow> bool" where
  "uses_horizon server np (Call name args) =
     ((name \<in> set horizon_calls \<longrightarrow> args \<noteq> [] \<and> hd args = server) \<and>
      (name = ''new TransactionBuilder'' \<longrightarrow>
         length args = 2 \<and>
         args ! 1 = JObj [(''fee'', JStr (string_of_int baseFee)), (''networkPassphrase'', JStr np)]) \<and>
      (name = ''TransactionBuilder.fromXDR'' \<longrightarrow> length args = 2 \<and> args ! 1 = JStr np) \<and>
      name \<noteq> ''new Horizon.Server'')"

text \<open>
  Within one item: the call uses \<open>server\<close> and \<open>np\<close>, a call on the Soroban RPC
  client is made on the client \<open>ss\<close> (and there is none when \<open>ss\<close> is \<open>None\<close>), and
  no RPC client is constructed.
\<close>

fun conforms :: "json \<Rightarrow> string \<Rightarrow> json option \<Rightarrow> call \<Rightarrow> bool" where
  "conforms server np ss (Call name args) =
     (uses_horizon server np (Call name args) \<and>
      (name \<in> set soroban_calls \<longrightarrow> args \<noteq> [] \<and> ss = Some (hd args)) \<and>
      name \<noteq> ''new SorobanRpc.Server'')"

text \<open>
  Within a batch: the call uses \<open>server\<close> and \<open>np\<close>, and an RPC client is constructed
  for the Soroban RPC URL of the execution only.
\<close>

fun uses_config :: "credentials \<Rightarrow> json \<Rightarrow> string \<Rightarrow> call \<Rightarrow> bool" where
  "uses_config cred server np (Call name args) =
     (uses_horizon server np (Call name args) \<and>
      (name = ''new SorobanRpc.Server'' \<longrightarrow>
         (case soroban_rpc_url cred of Inr u \<Rightarrow> args = [JStr u] | Inl e \<Rightarrow> False)))"

text \<open>A computation that only appends calls, each of which satisfies \<open>P\<close>.\<close>

definition appends :: "(call \<Rightarrow> bool) \<Rightarrow> 'a io \<Rightarrow> bool" where
  "appends P m = (\<forall>w. \<exists>cs. calls (snd (m w)) = calls w @ cs \<and> list_all P cs)"

subsection \<open>Concrete inputs\<close>

text \<open>
  An outside world in which every call answers \<open>null\<close> and nothing throws, the
  world before any call, the passphrases of the SDK, and credentials as the host hands
  them over when optional fields are left empty.
\<close>

definition quiet_sdk :: sdk where
  "quiet_sdk = (\<lambda>log c. Inr JNull)"

definition empty_world :: world where
  "empty_world = \<lparr>calls = [], globals = [], streams = []\<rparr>"

definition sdk_networks :: Networks where
  "sdk_networks =
     \<lparr>PUBLIC = ''Public Global Stellar Network ; September 2015'',
      TESTNET = ''Test SDF Network ; September 2015'',
      FUTURENET = ''Test SDF Future Network ; October 2022''\<rparr>"

definition cred_testnet :: credentials where
  "cred_testnet =
     \<lparr>network = Testnet, customHorizonUrl = Some [], customNetworkPassphrase = Some [],
      secretKey = Some [], sorobanRpcUrl = Some []\<rparr>"

definition cred_custom :: credentials where
  "cred_custom =
     \<lparr>network = Custom, customHorizonUrl = Some ''https://horizon.example.com'',
      customNetworkPassphrase = Some ''Custom Network ; January 2024'',
      secretKey = Some [], sorobanRpcUrl = Some []\<rparr>"

definition item_sendPayment :: item where
  "item_sendPayment =
     [''resource'' \<mapsto> JStr ''payment'', ''operation'' \<mapsto> JStr ''sendPayment'',
      ''destination'' \<mapsto> JStr ''GDEST'', ''amount'' \<mapsto> JStr ''10'',
      ''assetCode'' \<mapsto> JStr ''XLM'']"

definition item_invokeContract :: item where
  "item_invokeContract =
     [''resource'' \<mapsto> JStr ''soroban'', ''operation'' \<mapsto> JStr ''invokeContract'',
      ''contractId'' \<mapsto> JStr ''CABC'', ''functionName'' \<mapsto> JStr ''hello'',
      ''functionArgs'' \<mapsto> JStr ''[]'']"

definition item_xlm_info :: item where
  "item_xlm_info =
     [''resource'' \<mapsto> JStr ''asset'', ''operation'' \<mapsto> JStr ''getAssetInfo'',
      ''assetCode'' \<mapsto> JStr ''XLM'']"

definition item_usdc_info :: item where
  "item_usdc_info =
     [''resource'' \<mapsto> JStr ''asset'', ''operation'' \<mapsto> JStr ''getAssetInfo'',
      ''assetCode'' \<mapsto> JStr ''USDC'']"

definition three_items :: "item list" where
  "three_items = [item_xlm_info, item_sendPayment, item_usdc_info]"

definition host_tolerant :: host where
  "host_tolerant =
     \<lparr>getInputData = three_items, getCredentials = cred_testnet, continueOnFail = True\<rparr>"

definition host_strict :: host where
  "host_strict =
     \<lparr>getInputData = three_items, getCredentials = cred_testnet, continueOnFail = False\<rparr>"

definition cred_custom_blank :: credentials where
  "cred_custom_blank =
     \<lparr>network = Custom, customHorizonUrl = Some [], customNetworkPassphrase = Some [],
      secretKey = Some [], sorobanRpcUrl = Some []\<rparr>"

definition host_custom_blank :: host where
  "host_custom_blank =
     \<lparr>getInputData = [item_xlm_info], getCredentials = cred_custom_blank, continueOnFail = True\<rparr>"

definition world_after_setup :: world where
  "world_after_setup =
     \<lparr>calls = [Call ''console.warn'' [JStr licensing_notice],
               Call ''new Horizon.Server'' [JStr ''https://horizon-testnet.stellar.org'']],
      globals = [''stellar.licensing.logged''], streams = []\<rparr>"

definition host_payments :: trigger_host where
  "host_payments =
     \<lparr>triggerCredentials = cred_testnet,
      triggerParameters = [''event'' \<mapsto> JStr ''payments'', ''accountId'' \<mapsto> JStr [],
                           ''cursor'' \<mapsto> JStr ''now'']\<rparr>"

definition world_streaming :: world where
  "world_streaming =
     \<lparr>calls = [Call ''console.warn'' [JStr licensing_notice],
               Call ''new Horizon.Server'' [JStr ''https://horizon-testnet.stellar.org''],
               Call ''server.payments'' [JNull],
               Call ''streamBuilder.cursor().stream'' [JNull, JStr ''now'']],
      globals = [''stellarTrigger.licensing.logged''], streams = [True]\<rparr>"

definition cred_testnet_rpc :: credentials where
  "cred_testnet_rpc =
     \<lparr>network = Testnet, customHorizonUrl = Some [], customNetworkPassphrase = Some [],
      secretKey = Some [], sorobanRpcUrl = Some ''https://rpc.example.com''\<rparr>"

definition item_getHealth :: item where
  "item_getHealth = [''resource'' \<mapsto> JStr ''soroban'', ''operation'' \<mapsto> JStr ''getHealth'']"

definition host_custom :: host where
  "host_custom =
     \<lparr>getInputData = [item_xlm_info], getCredentials = cred_custom, continueOnFail = False\<rparr>"

definition host_getHealth :: host where
  "host_getHealth =
     \<lparr>getInputData = [item_getHealth], getCredentials = cred_testnet_rpc, continueOnFail = False\<rparr>"

section \<open>Evaluation rules\<close>

lemma andThen_ret [simp]: "andThen (ret x) f = f x"
  by (simp add: andThen_def ret_def)

lemma andThen_throw [simp]: "andThen (throw e) f = throw e"
  by (simp add: andThen_def throw_def)

lemma ret_apply: "ret x w = (Inr x, w)"
  by (simp add: ret_def)

lemma throw_apply: "throw e w = (Inl e, w)"
  by (simp add: throw_def)

lemma liftE_apply: "liftE r w = (r, w)"
  by (simp add: liftE_def)

lemma ext_apply:
  "ext env name args w =
     (env (calls w) (Call name args), w\<lparr>calls := calls w @ [Call name args]\<rparr>)"
  by (simp add: ext_def)

lemma andThen_apply:
  "andThen m f w = (case m w of (Inl e, w') \<Rightarrow> (Inl e, w') | (Inr x, w') \<Rightarrow> f x w')"
  by (simp add: andThen_def)

lemma andThen_liftE_Inr: "andThen (liftE (Inr x)) f = f x"
  by (simp add: andThen_def liftE_def)

section \<open>The signing key precondition\<close>

lemma no_key:
  "createAccount env server None np it = secretKeyRequired '' for creating accounts''"
  "mergeAccount env server None np it = secretKeyRequired '' for merging accounts''"
  "setData env server None np it = secretKeyRequired '' for setting data''"
  "setOptions env server None np it = secretKeyRequired '' for setting options''"
  "sendPayment env server None np it = secretKeyRequired '' for payments''"
  "pathPayment env server None np it = secretKeyRequired '' for path payments''"
  "createClaimableBalance env server None np it = secretKeyRequired []"
  "claimBalance env server None np it = secretKeyRequired []"
  "changeTrust env server None np it = secretKeyRequired '' for trustlines''"
  "issueAsset env server None np it = secretKeyRequired []"
  "createSellOffer env server None np it = secretKeyRequired []"
  "createBuyOffer env server None np it = secretKeyRequired []"
  "cancelOffer env server None np it = secretKeyRequired []"
  "listOffers env server None = secretKeyRequired '' to list your offers''"
  "signXdr env None np it = secretKeyRequired '' for signing''"
  "contractCall env ss None np operation it = secretKeyRequired '' for contract operations''"
  by (simp_all add: createAccount_def mergeAccount_def setData_def setOptions_def sendPayment_def
      pathPayment_def createClaimableBalance_def claimBalance_def changeTrust_def issueAsset_def
      createSellOffer_def createBuyOffer_def createOffer_def cancelOffer_def listOffers_def
      signXdr_def contractCall_def)

lemma secretKeyRequired_apply:
  "secretKeyRequired suffix w = (Inl (JsError (''Secret key required'' @ suffix)), w)"
  by (simp add: secretKeyRequired_def throw_def)

lemma process_item_dispatch:
  assumes "it ''resource'' = Some resource" and "it ''operation'' = Some operation"
  shows "process_item env cred server keypair np it =
     (if resource = JStr ''account'' then
       account_ops env (network cred) server keypair np operation it
     else if resource = JStr ''payment'' then
       payment_ops env server keypair np operation it
     else if resource = JStr ''asset'' then
       asset_ops env server keypair np operation it
     else if resource = JStr ''dex'' then
       dex_ops env server keypair np operation it
     else if resource = JStr ''transaction'' then
       transaction_ops env server keypair np operation it
     else if resource = JStr ''ledger'' then
       ledger_ops env server operation it
     else if resource = JStr ''soroban'' then
       soroban_ops env cred keypair np operation it
     else throw (JsError (''Unknown resource: '' @ toStr resource)))"
  using assms by (simp add: process_item_def getNodeParameter_def)


lemma no_key_plain:
  assumes "it ''resource'' = Some resource" and "it ''operation'' = Some operation"
    and "requires_key resource operation" and "resource \<noteq> JStr ''soroban''"
  shows "snd (process_item env cred server None np it w) = w \<and>
         (\<exists>e. fst (process_item env cred server None np it w) = Inl e \<and> is_secret_key_error e)"
  using assms(3,4) unfolding process_item_dispatch [OF assms(1,2)]
  apply (simp add: requires_key_def)
  apply (elim disjE conjE)
  apply (simp_all add: account_ops_def payment_ops_def asset_ops_def dex_ops_def transaction_ops_def no_key secretKeyRequired_apply)
  done

lemma no_key_soroban:
  assumes "it ''resource'' = Some (JStr ''soroban'')" and "it ''operation'' = Some operation"
    and "operation = JStr ''invokeContract'' \<or> operation = JStr ''simulateTransaction''"
  shows "process_item env cred server None np it w =
     (case rpcUrlOf cred of
        Inl c \<Rightarrow> (Inl c, w)
      | Inr u \<Rightarrow>
          (case env (calls w) (Call ''new SorobanRpc.Server'' [JStr u]) of
             Inl t \<Rightarrow> Inl t
           | Inr s \<Rightarrow> Inl (JsError ''Secret key required for contract operations''),
           w\<lparr>calls := calls w @ [Call ''new SorobanRpc.Server'' [JStr u]]\<rparr>))"
  using assms(3) unfolding process_item_dispatch [OF assms(1,2)]
  by (auto simp add: soroban_ops_def no_key secretKeyRequired_apply andThen_apply liftE_apply
      ext_apply split: sum.splits)

lemma not_network_ctor: "\<not> is_network_call (Call ''new SorobanRpc.Server'' args)"
  by (simp add: network_calls_def)

lemma keypairOf_none: "\<not> truthy_opt secret \<Longrightarrow> keypairOf env secret = ret None"
  by (cases secret) (simp_all add: keypairOf_def)

text \<open>
  C1 (amended). Let an item select an operation that requires a signing key, and let no
  secret key be configured (absent or empty), so that \<open>execute\<close> has no keypair.
  Dispatching the item fails, and no network call is made for it. For every resource
  but \<open>soroban\<close> the failure is the "Secret key required" precondition error and no
  call at all precedes it. For \<open>soroban\<close> the RPC URL is resolved and the RPC client
  constructed before the key is tested: the failure is the precondition error
  "Secret key required for contract operations" when both succeed, the configuration
  error of the resolver when the network is custom and no Soroban RPC URL is given, and
  what the constructor throws when it throws.
\<close>

theorem secret_key_required_before_network:
  assumes "it ''resource'' = Some resource" and "it ''operation'' = Some operation"
    and "requires_key resource operation" and "\<not> truthy_opt (secretKey cred)"
  shows "keypairOf env (secretKey cred) = ret None \<and>
    isl (fst (process_item env cred server None np it w)) \<and>
    network_calls_of (snd (process_item env cred server None np it w)) = network_calls_of w \<and>
    (resource \<noteq> JStr ''soroban'' \<longrightarrow>
       snd (process_item env cred server None np it w) = w \<and>
       (\<exists>e. fst (process_item env cred server None np it w) = Inl e \<and> is_secret_key_error e)) \<and>
    (resource = JStr ''soroban'' \<longrightarrow>
       process_item env cred server None np it w =
         (case rpcUrlOf cred of
            Inl c \<Rightarrow> (Inl c, w)
          | Inr u \<Rightarrow>
              (case env (calls w) (Call ''new SorobanRpc.Server'' [JStr u]) of
                 Inl t \<Rightarrow> Inl t
               | Inr s \<Rightarrow> Inl (JsError ''Secret key required for contract operations''),
               w\<lparr>calls := calls w @ [Call ''new SorobanRpc.Server'' [JStr u]]\<rparr>)))"
proof (cases "resource = JStr ''soroban''")
  case True
  with assms(3) have op: "operation = JStr ''invokeContract'' \<or> operation = JStr ''simulateTransaction''"
    by (auto simp add: requires_key_def)
  have eq: "process_item env cred server None np it w =
         (case rpcUrlOf cred of
            Inl c \<Rightarrow> (Inl c, w)
          | Inr u \<Rightarrow>
              (case env (calls w) (Call ''new SorobanRpc.Server'' [JStr u]) of
                 Inl t \<Rightarrow> Inl t
               | Inr s \<Rightarrow> Inl (JsError ''Secret key required for contract operations''),
               w\<lparr>calls := calls w @ [Call ''new SorobanRpc.Server'' [JStr u]]\<rparr>))"
  proof -
    from assms(1) True have res: "it ''resource'' = Some (JStr ''soroban'')" by simp
    show ?thesis by (rule no_key_soroban [OF res assms(2) op])
  qed
  have "isl (fst (process_item env cred server None np it w))"
    unfolding eq by (simp split: sum.splits)
  moreover have "network_calls_of (snd (process_item env cred server None np it w)) = network_calls_of w"
    unfolding eq
    by (simp add: network_calls_of_def not_network_ctor del: is_network_call.simps split: sum.splits)
  ultimately show ?thesis
    using True eq keypairOf_none [OF assms(4)] by simp
next
  case False
  from no_key_plain [OF assms(1,2,3) False]
  have plain: "snd (process_item env cred server None np it w) = w"
    "\<exists>e. fst (process_item env cred server None np it w) = Inl e \<and> is_secret_key_error e"
    by simp_all
  from plain(2) have "isl (fst (process_item env cred server None np it w))" by auto
  with plain False keypairOf_none [OF assms(4)] show ?thesis by simp
qed

text \<open>
  C1, witness: a \<open>sendPayment\<close> item on testnet without a secret key fails with
  "Secret key required for payments" and leaves the world as it was.
\<close>

theorem secret_key_required_before_network_witness:
  "item_sendPayment ''resource'' = Some (JStr ''payment'') \<and>
   item_sendPayment ''operation'' = Some (JStr ''sendPayment'') \<and>
   requires_key (JStr ''payment'') (JStr ''sendPayment'') \<and>
   \<not> truthy_opt (secretKey cred_testnet) \<and>
   process_item quiet_sdk cred_testnet JNull None ''Test SDF Network ; September 2015''
     item_sendPayment empty_world =
     (Inl (JsError ''Secret key required for payments''), empty_world)"
proof -
  have h1: "item_sendPayment ''resource'' = Some (JStr ''payment'')"
    by (simp add: item_sendPayment_def)
  have h2: "item_sendPayment ''operation'' = Some (JStr ''sendPayment'')"
    by (simp add: item_sendPayment_def)
  have h3: "requires_key (JStr ''payment'') (JStr ''sendPayment'')"
    by (simp add: requires_key_def)
  have h4: "\<not> truthy_opt (secretKey cred_testnet)"
    by (simp add: cred_testnet_def)
  have "isl (fst (process_item quiet_sdk cred_testnet JNull None
                ''Test SDF Network ; September 2015'' item_sendPayment empty_world))"
    using secret_key_required_before_network [OF h1 h2 h3 h4] by simp
  moreover have "process_item quiet_sdk cred_testnet JNull None ''Test SDF Network ; September 2015''
      item_sendPayment empty_world = (Inl (JsError ''Secret key required for payments''), empty_world)"
    by (simp add: process_item_dispatch [OF h1 h2] payment_ops_def no_key secretKeyRequired_apply)
  ultimately show ?thesis using h1 h2 h3 h4 by simp
qed

text \<open>
  C1, counterexample to the claim as stated: on a custom network with no Soroban RPC URL,
  an \<open>invokeContract\<close> item without a secret key fails with the configuration error
  "Custom Soroban RPC URL required for custom network", which is not a "Secret key
  required" message.
\<close>

theorem secret_key_required_counterexample:
  "item_invokeContract ''resource'' = Some (JStr ''soroban'') \<and>
   item_invokeContract ''operation'' = Some (JStr ''invokeContract'') \<and>
   requires_key (JStr ''soroban'') (JStr ''invokeContract'') \<and>
   \<not> truthy_opt (secretKey cred_custom) \<and>
   execute quiet_sdk sdk_networks
     \<lparr>getInputData = [item_invokeContract], getCredentials = cred_custom, continueOnFail = True\<rparr>
     empty_world =
     (Inr [ [JObj [(''json'', JObj [(''error'',
              JStr ''Custom Soroban RPC URL required for custom network'')])]]],
      \<lparr>calls = [Call ''console.warn'' [JStr licensing_notice],
                Call ''new Horizon.Server'' [JStr ''https://horizon.example.com'']],
       globals = [''stellar.licensing.logged''], streams = []\<rparr>) \<and>
   \<not> is_secret_key_error (JsError ''Custom Soroban RPC URL required for custom network'')"
  by (simp add: item_invokeContract_def requires_key_def cred_custom_def execute_def
      execute_setup_def logLicensingNotice_def empty_world_def andThen_apply liftE_apply
      getHorizonUrl_def getNetworkPassphrase_def ext_apply quiet_sdk_def keypairOf_def ret_apply
      process_item_def getNodeParameter_def soroban_ops_def rpcUrlOf_def getSorobanRpcUrl_def
      error_item_def)

section \<open>The network resolvers\<close>

text \<open>
  C3 (amended). On the custom network each resolver fails with its configuration error
  when the override is absent or is the empty string, and returns exactly the override
  otherwise.
\<close>

theorem custom_network_resolvers:
  "getHorizonUrl Custom c =
     (case c of
        None \<Rightarrow> Inl (JsError ''Custom Horizon URL required for custom network'')
      | Some u \<Rightarrow>
          if u = [] then Inl (JsError ''Custom Horizon URL required for custom network'')
          else Inr u) \<and>
   getNetworkPassphrase sdkn Custom c =
     (case c of
        None \<Rightarrow> Inl (JsError ''Custom network passphrase required for custom network'')
      | Some u \<Rightarrow>
          if u = [] then Inl (JsError ''Custom network passphrase required for custom network'')
          else Inr u) \<and>
   getSorobanRpcUrl Custom c =
     (case c of
        None \<Rightarrow> Inl (JsError ''Custom Soroban RPC URL required for custom network'')
      | Some u \<Rightarrow>
          if u = [] then Inl (JsError ''Custom Soroban RPC URL required for custom network'')
          else Inr u)"
  by (cases c) (simp_all add: getHorizonUrl_def getNetworkPassphrase_def getSorobanRpcUrl_def)

text \<open>
  C3, witness: the overrides of the unit tests are returned as they are, and a missing
  override fails.
\<close>

theorem custom_network_resolvers_witness:
  "getHorizonUrl Custom (Some ''https://custom-horizon.example.com'') =
     Inr ''https://custom-horizon.example.com'' \<and>
   getNetworkPassphrase sdk_networks Custom (Some ''Custom Network ; Test'') =
     Inr ''Custom Network ; Test'' \<and>
   getSorobanRpcUrl Custom None =
     Inl (JsError ''Custom Soroban RPC URL required for custom network'')"
  using custom_network_resolvers [of "Some ''https://custom-horizon.example.com''" sdk_networks]
    custom_network_resolvers [of "Some ''Custom Network ; Test''" sdk_networks]
    custom_network_resolvers [of None sdk_networks]
  by simp

text \<open>
  C3, counterexample to the claim as stated: an override that is supplied but empty is
  not returned; each resolver fails on it.
\<close>

theorem custom_network_resolvers_counterexample:
  "getHorizonUrl Custom (Some []) \<noteq> Inr [] \<and>
   getHorizonUrl Custom (Some []) =
     Inl (JsError ''Custom Horizon URL required for custom network'') \<and>
   getNetworkPassphrase sdk_networks Custom (Some []) =
     Inl (JsError ''Custom network passphrase required for custom network'') \<and>
   getSorobanRpcUrl Custom (Some []) =
     Inl (JsError ''Custom Soroban RPC URL required for custom network'')"
  by (simp add: getHorizonUrl_def getNetworkPassphrase_def getSorobanRpcUrl_def)

text \<open>
  C4. On the public network, testnet and futurenet the resolvers return the fixed
  constants of the tables, whatever the override argument is. For testnet the Horizon URL
  is "https://horizon-testnet.stellar.org" and the passphrase is the SDK's
  \<open>Networks.TESTNET\<close>.
\<close>

theorem fixed_network_resolvers:
  "getHorizonUrl Public c = Inr ''https://horizon.stellar.org'' \<and>
   getHorizonUrl Testnet c = Inr ''https://horizon-testnet.stellar.org'' \<and>
   getHorizonUrl Futurenet c = Inr ''https://horizon-futurenet.stellar.org'' \<and>
   getNetworkPassphrase sdkn Public c = Inr (PUBLIC sdkn) \<and>
   getNetworkPassphrase sdkn Testnet c = Inr (TESTNET sdkn) \<and>
   getNetworkPassphrase sdkn Futurenet c = Inr (FUTURENET sdkn) \<and>
   getSorobanRpcUrl Public c = Inr ''https://soroban.stellar.org'' \<and>
   getSorobanRpcUrl Testnet c = Inr ''https://soroban-testnet.stellar.org'' \<and>
   getSorobanRpcUrl Futurenet c = Inr ''https://rpc-futurenet.stellar.org''"
  by (simp add: getHorizonUrl_def getNetworkPassphrase_def getSorobanRpcUrl_def)

text \<open>C4, witness: testnet, with the passphrases of the SDK and no override.\<close>

theorem fixed_network_resolvers_witness:
  "getHorizonUrl Testnet None = Inr ''https://horizon-testnet.stellar.org'' \<and>
   getNetworkPassphrase sdk_networks Testnet None = Inr ''Test SDF Network ; September 2015'' \<and>
   getSorobanRpcUrl Testnet None = Inr ''https://soroban-testnet.stellar.org''"
  using fixed_network_resolvers [of None sdk_networks] by (simp add: sdk_networks_def)

section \<open>Asset information\<close>

lemma getAssetInfo_dispatch:
  assumes "it ''resource'' = Some (JStr ''asset'')"
    and "it ''operation'' = Some (JStr ''getAssetInfo'')"
  shows "process_item env cred server keypair np it = getAssetInfo env server it"
  by (simp add: process_item_dispatch [OF assms] asset_ops_def)

text \<open>
  C9. An item with resource "asset", operation "getAssetInfo" and assetCode "XLM" yields
  exactly \<open>{type: 'native', code: 'XLM', issuer: null}\<close>, whatever the issuer, the
  credentials and the outside world are, and the world is left as it was: no call is
  made, over the network or otherwise.
\<close>

theorem getAssetInfo_XLM:
  assumes "it ''resource'' = Some (JStr ''asset'')"
    and "it ''operation'' = Some (JStr ''getAssetInfo'')"
    and "it ''assetCode'' = Some (JStr ''XLM'')"
  shows "process_item env cred server keypair np it w =
           (Inr (JObj [(''type'', JStr ''native''), (''code'', JStr ''XLM''), (''issuer'', JNull)]), w)"
  unfolding getAssetInfo_dispatch [OF assms(1,2)]
  by (cases "it ''assetIssuer''")
     (simp_all add: getAssetInfo_def getNodeParameter_def assms(3) native_asset_info_def ret_apply)

text \<open>C9, witness: the item of the example, on testnet, in a world without calls.\<close>

theorem getAssetInfo_XLM_witness:
  "item_xlm_info ''resource'' = Some (JStr ''asset'') \<and>
   item_xlm_info ''operation'' = Some (JStr ''getAssetInfo'') \<and>
   item_xlm_info ''assetCode'' = Some (JStr ''XLM'') \<and>
   process_item quiet_sdk cred_testnet JNull None ''Test SDF Network ; September 2015''
     item_xlm_info empty_world =
     (Inr (JObj [(''type'', JStr ''native''), (''code'', JStr ''XLM''), (''issuer'', JNull)]),
      empty_world)"
proof -
  have h1: "item_xlm_info ''resource'' = Some (JStr ''asset'')"
    by (simp add: item_xlm_info_def)
  have h2: "item_xlm_info ''operation'' = Some (JStr ''getAssetInfo'')"
    by (simp add: item_xlm_info_def)
  have h3: "item_xlm_info ''assetCode'' = Some (JStr ''XLM'')"
    by (simp add: item_xlm_info_def)
  show ?thesis using h1 h2 h3 getAssetInfo_XLM [OF h1 h2 h3] by simp
qed

text \<open>
  C10. For any assetCode, an item with resource "asset" and operation "getAssetInfo"
  whose assetIssuer is absent or empty yields the native payload, in which the code is
  "XLM" and not the code supplied, and no call is made. The query to Horizon is issued
  exactly when the code is not "XLM" and the issuer is not empty, and it is then the
  first call made for the item.
\<close>

theorem getAssetInfo_native_or_query:
  assumes "it ''resource'' = Some (JStr ''asset'')"
    and "it ''operation'' = Some (JStr ''getAssetInfo'')"
    and "it ''assetCode'' = Some assetCode"
  shows "(it ''assetIssuer'' = None \<or> it ''assetIssuer'' = Some (JStr []) \<longrightarrow>
            process_item env cred server keypair np it w =
              (Inr (JObj [(''type'', JStr ''native''), (''code'', JStr ''XLM''), (''issuer'', JNull)]), w)) \<and>
         (\<forall>assetIssuer. it ''assetIssuer'' = Some assetIssuer \<longrightarrow>
            (if assetCode = JStr ''XLM'' \<or> \<not> truthy assetIssuer then
               snd (process_item env cred server keypair np it w) = w
             else
               calls (snd (process_item env cred server keypair np it w)) =
                 calls w @ [Call ''server.assets().forCode().forIssuer().call''
                              [server, assetCode, assetIssuer]]))"
  unfolding getAssetInfo_dispatch [OF assms(1,2)]
  by (auto simp add: getAssetInfo_def getNodeParameter_def assms(3) native_asset_info_def
      ret_apply andThen_apply ext_apply getProp_def lengthPositive_def index0_def throw_apply
      split: sum.splits json.splits prod.splits)

text \<open>
  C10, witness: the code "USDC" without an issuer yields the native payload and no call.
\<close>

theorem getAssetInfo_native_or_query_witness:
  "item_usdc_info ''resource'' = Some (JStr ''asset'') \<and>
   item_usdc_info ''operation'' = Some (JStr ''getAssetInfo'') \<and>
   item_usdc_info ''assetCode'' = Some (JStr ''USDC'') \<and>
   item_usdc_info ''assetIssuer'' = None \<and>
   process_item quiet_sdk cred_testnet JNull None ''Test SDF Network ; September 2015''
     item_usdc_info empty_world =
     (Inr (JObj [(''type'', JStr ''native''), (''code'', JStr ''XLM''), (''issuer'', JNull)]),
      empty_world)"
proof -
  have h1: "item_usdc_info ''resource'' = Some (JStr ''asset'')"
    by (simp add: item_usdc_info_def)
  have h2: "item_usdc_info ''operation'' = Some (JStr ''getAssetInfo'')"
    by (simp add: item_usdc_info_def)
  have h3: "item_usdc_info ''assetCode'' = Some (JStr ''USDC'')"
    by (simp add: item_usdc_info_def)
  have h4: "item_usdc_info ''assetIssuer'' = None"
    by (simp add: item_usdc_info_def)
  show ?thesis using h1 h2 h3 h4 getAssetInfo_native_or_query [OF h1 h2 h3] by simp
qed

section \<open>Results that do not depend on the world\<close>

lemma same_result_ret: "same_result (ret x)"
  by (simp add: same_result_def ret_def)

lemma same_result_throw: "same_result (throw e)"
  by (simp add: same_result_def throw_def)

lemma same_result_liftE: "same_result (liftE r)"
  by (simp add: same_result_def liftE_def)

lemma same_result_ext: "history_free env \<Longrightarrow> same_result (ext env name args)"
  by (auto simp add: same_result_def ext_def history_free_def)

lemma same_result_andThen:
  assumes "same_result m" and "\<And>x. same_result (f x)"
  shows "same_result (andThen m f)"
  unfolding same_result_def
proof (intro allI)
  fix w w'
  from assms(1) have m: "fst (m w) = fst (m w')" by (simp add: same_result_def)
  show "fst (andThen m f w) = fst (andThen m f w')"
  proof (cases "fst (m w)")
    case (Inl e)
    with m show ?thesis
      by (cases "m w"; cases "m w'") (simp add: andThen_def)
  next
    case (Inr x)
    from assms(2) [of x] have "fst (f x (snd (m w))) = fst (f x (snd (m w')))"
      by (simp add: same_result_def)
    with m Inr show ?thesis
      by (cases "m w"; cases "m w'") (simp add: andThen_def)
  qed
qed

lemma same_result_if:
  "(c \<Longrightarrow> same_result a) \<Longrightarrow> (\<not> c \<Longrightarrow> same_result b) \<Longrightarrow> same_result (if c then a else b)"
  by simp

lemma same_result_option:
  "(k = None \<Longrightarrow> same_result a) \<Longrightarrow> (\<And>x. k = Some x \<Longrightarrow> same_result (b x)) \<Longrightarrow>
     same_result (case k of None \<Rightarrow> a | Some x \<Rightarrow> b x)"
  by (cases k) simp_all

lemma same_result_getNodeParameter: "same_result (getNodeParameter it name fallback)"
  by (simp add: getNodeParameter_def same_result_ret same_result_throw split: option.splits)

lemma same_result_getProp: "same_result (getProp v k)"
  by (simp add: getProp_def same_result_ret same_result_throw split: json.splits)

lemma same_result_index0: "same_result (index0 v)"
  by (simp add: index0_def same_result_ret same_result_throw split: json.splits)

lemma same_result_lengthPositive: "same_result (lengthPositive v)"
  by (simp add: lengthPositive_def same_result_ret same_result_throw split: json.splits)

lemma same_result_secretKeyRequired: "same_result (secretKeyRequired suffix)"
  by (simp add: secretKeyRequired_def same_result_throw)

lemma same_result_mapM_io:
  "(\<And>x. same_result (f x)) \<Longrightarrow> same_result (mapM_io f xs)"
  by (induction xs) (simp_all add: same_result_ret same_result_andThen)

lemma same_result_array_map:
  "(\<And>x. same_result (f x)) \<Longrightarrow> same_result (array_map name f v)"
  by (simp add: array_map_def same_result_mapM_io same_result_throw split: json.splits)

lemmas same_result_intros =
  same_result_ret same_result_throw same_result_liftE same_result_ext same_result_andThen
  same_result_if same_result_option same_result_getNodeParameter same_result_getProp
  same_result_index0 same_result_lengthPositive same_result_secretKeyRequired same_result_mapM_io same_result_array_map

lemma same_result_helpers:
  assumes "history_free env"
  shows "same_result (publicKey env kp)"
    and "same_result (loadAccount env server kp)"
    and "same_result (newTransactionBuilder env sourceAccount np)"
    and "same_result (addOperation env builder op)"
    and "same_result (setTimeout_build env builder)"
    and "same_result (sign env transaction kp)"
    and "same_result (submitTransaction env server transaction)"
    and "same_result (assetOf env code issuer)"
    and "same_result (toScVal env arg)"
  using assms
  by (auto simp add: publicKey_def loadAccount_def newTransactionBuilder_def addOperation_def
      setTimeout_build_def sign_def submitTransaction_def assetOf_def toScVal_def
      intro!: same_result_intros split: json.splits)

lemma same_result_submitOperation:
  assumes "history_free env" and "same_result mkop"
  shows "same_result (submitOperation env server kp np mkop)"
  unfolding submitOperation_def
  by (intro same_result_andThen same_result_helpers assms)

lemmas same_result_steps =
  same_result_intros same_result_helpers same_result_submitOperation

lemma same_result_account_ops:
  assumes "history_free env"
  shows "same_result (account_ops env net server keypair np operation it)"
  using assms
  by (auto simp add: account_ops_def generateKeypair_def getInfo_def fundTestnet_def
      createAccount_def mergeAccount_def setData_def setOptions_def
      intro!: same_result_steps split: prod.splits)

lemma same_result_payment_ops:
  assumes "history_free env"
  shows "same_result (payment_ops env server keypair np operation it)"
  using assms
  by (auto simp add: payment_ops_def sendPayment_def pathPayment_def createClaimableBalance_def
      claimBalance_def intro!: same_result_steps)

lemma same_result_asset_ops:
  assumes "history_free env"
  shows "same_result (asset_ops env server keypair np operation it)"
  using assms
  by (auto simp add: asset_ops_def changeTrust_def getAssetInfo_def issueAsset_def
      intro!: same_result_steps)

lemma same_result_dex_ops:
  assumes "history_free env"
  shows "same_result (dex_ops env server keypair np operation it)"
  using assms
  by (auto simp add: dex_ops_def getOrderbook_def createSellOffer_def createBuyOffer_def
      createOffer_def cancelOffer_def listOffers_def getTrades_def
      intro!: same_result_steps)

lemma same_result_transaction_ops:
  assumes "history_free env"
  shows "same_result (transaction_ops env server keypair np operation it)"
  using assms
  by (auto simp add: transaction_ops_def getTransaction_def signXdr_def submitXdr_def
      intro!: same_result_steps)

lemma same_result_ledger_ops:
  assumes "history_free env"
  shows "same_result (ledger_ops env server operation it)"
  using assms
  by (auto simp add: ledger_ops_def getLatest_def getBySequence_def getFeeStats_def
      intro!: same_result_steps)

lemma same_result_soroban_ops:
  assumes "history_free env"
  shows "same_result (soroban_ops env cred keypair np operation it)"
  using assms
  by (auto simp add: soroban_ops_def contractCall_def
      intro!: same_result_steps)

lemma same_result_process_item:
  assumes "history_free env"
  shows "same_result (process_item env cred server keypair np it)"
  unfolding process_item_def
  by (intro same_result_andThen same_result_getNodeParameter same_result_if same_result_throw
      same_result_account_ops same_result_payment_ops same_result_asset_ops same_result_dex_ops
      same_result_transaction_ops same_result_ledger_ops same_result_soroban_ops assms)

section \<open>The batch\<close>

lemma length_item_worlds [simp]:
  "length (item_worlds env cred server keypair np its w) = length its"
  by (induction its arbitrary: w) simp_all

lemma execute_loop_tolerant:
  "execute_loop env cred server keypair np True its acc w =
     (Inr (acc @ map (\<lambda>(it, wi). output_of (fst (process_item env cred server keypair np it wi)))
                   (zip its (item_worlds env cred server keypair np its w))),
      fold (\<lambda>it w. snd (process_item env cred server keypair np it w)) its w)"
proof (induction its arbitrary: acc w)
  case Nil
  show ?case by (simp add: ret_apply)
next
  case (Cons it its)
  obtain r w' where step: "process_item env cred server keypair np it w = (r, w')"
    by (cases "process_item env cred server keypair np it w")
  show ?case
  proof (cases r)
    case (Inl error)
    with step Cons.IH [of "acc @ [error_item error]" w'] show ?thesis
      by (simp add: output_of_def error_item_def)
  next
    case (Inr result)
    with step Cons.IH [of "acc @ [ok_item result]" w'] show ?thesis
      by (simp add: output_of_def ok_item_def)
  qed
qed

lemma execute_loop_strict:
  assumes "k < length its"
    and "\<forall>j<k. \<not> isl (fst (process_item env cred server keypair np (its ! j)
                  (item_worlds env cred server keypair np its w ! j)))"
    and "fst (process_item env cred server keypair np (its ! k)
                  (item_worlds env cred server keypair np its w ! k)) = Inl e"
  shows "execute_loop env cred server keypair np False its acc w =
     (Inl e, snd (process_item env cred server keypair np (its ! k)
                  (item_worlds env cred server keypair np its w ! k)))"
  using assms
proof (induction its arbitrary: k acc w)
  case Nil
  then show ?case by simp
next
  case (Cons it its)
  obtain r w' where step: "process_item env cred server keypair np it w = (r, w')"
    by (cases "process_item env cred server keypair np it w")
  show ?case
  proof (cases k)
    case 0
    with Cons.prems(3) step show ?thesis by simp
  next
    case (Suc k')
    from Cons.prems(2) Suc have "\<not> isl (fst (process_item env cred server keypair np it w))"
      by fastforce
    with step obtain result where r: "r = Inr result" by (cases r) simp_all
    have k': "k' < length its" using Cons.prems(1) Suc by simp
    have before: "\<forall>j<k'. \<not> isl (fst (process_item env cred server keypair np (its ! j)
                  (item_worlds env cred server keypair np its w' ! j)))"
    proof (intro allI impI)
      fix j assume "j < k'"
      then have "Suc j < k" using Suc by simp
      with Cons.prems(2) have "\<not> isl (fst (process_item env cred server keypair np ((it # its) ! Suc j)
                  (item_worlds env cred server keypair np (it # its) w ! Suc j)))"
        by blast
      then show "\<not> isl (fst (process_item env cred server keypair np (its ! j)
                  (item_worlds env cred server keypair np its w' ! j)))"
        using step by simp
    qed
    have at: "fst (process_item env cred server keypair np (its ! k')
                  (item_worlds env cred server keypair np its w' ! k')) = Inl e"
      using Cons.prems(3) Suc step by simp
    from Cons.IH [OF k' before at, of "acc @ [ok_item result]"] step r Suc
    show ?thesis by simp
  qed
qed

lemma execute_after_setup:
  assumes "execute_setup env sdkn h w = (Inr (server, keypair, np), w1)"
  shows "execute env sdkn h w =
     (case execute_loop env (getCredentials h) server keypair np (continueOnFail h)
             (getInputData h) [] w1 of
        (Inl e, w2) \<Rightarrow> (Inl e, w2)
      | (Inr returnData, w2) \<Rightarrow> (Inr [returnData], w2))"
  using assms by (simp add: execute_def andThen_apply ret_apply split: prod.splits sum.splits)

text \<open>
  C2 (amended). Let the tolerate-failures mode be enabled and let the set-up of
  \<open>execute\<close> (resolving the Horizon URL and the passphrase, constructing the Horizon
  client, parsing the secret key) succeed. Then \<open>execute\<close> returns one list of exactly
  N output items for N input items, in the order of the inputs. The i-th output is
  \<open>{json: {error: message}}\<close> when processing the i-th item throws and \<open>{json: result}\<close>
  with its result otherwise, where the i-th item is processed in the world its
  predecessors have left: it depends on no other item but through the outside world.
  When the answers of the outside world do not depend on the calls made before, the
  i-th output is what the i-th item yields in any world whatever: a failure of another
  item does not change it.
\<close>

theorem execute_tolerant:
  assumes "continueOnFail h"
    and "execute_setup env sdkn h w = (Inr (server, keypair, np), w1)"
  shows "\<exists>out w2. execute env sdkn h w = (Inr [out], w2) \<and>
           length out = length (getInputData h) \<and>
           (\<forall>i<length (getInputData h).
              out ! i =
                (case fst (process_item env (getCredentials h) server keypair np (getInputData h ! i)
                            (item_worlds env (getCredentials h) server keypair np (getInputData h) w1 ! i)) of
                   Inr result \<Rightarrow> JObj [(''json'', result)]
                 | Inl error \<Rightarrow> JObj [(''json'', JObj [(''error'', JStr (errorMessage error))])])) \<and>
           (history_free env \<longrightarrow>
              (\<forall>i<length (getInputData h). \<forall>w'.
                 out ! i =
                   (case fst (process_item env (getCredentials h) server keypair np
                               (getInputData h ! i) w') of
                      Inr result \<Rightarrow> JObj [(''json'', result)]
                    | Inl error \<Rightarrow> JObj [(''json'', JObj [(''error'', JStr (errorMessage error))])])))"
proof -
  let ?out = "map (\<lambda>(it, wi). output_of (fst (process_item env (getCredentials h) server keypair np it wi)))
                (zip (getInputData h)
                   (item_worlds env (getCredentials h) server keypair np (getInputData h) w1))"
  have ex: "execute env sdkn h w =
      (Inr [?out],
       fold (\<lambda>it w. snd (process_item env (getCredentials h) server keypair np it w))
         (getInputData h) w1)"
    unfolding execute_after_setup [OF assms(2)]
    using assms(1) by (simp add: execute_loop_tolerant)
  have len: "length ?out = length (getInputData h)"
    by simp
  have nth: "\<forall>i<length (getInputData h).
      ?out ! i =
        (case fst (process_item env (getCredentials h) server keypair np (getInputData h ! i)
                    (item_worlds env (getCredentials h) server keypair np (getInputData h) w1 ! i)) of
           Inr result \<Rightarrow> JObj [(''json'', result)]
         | Inl error \<Rightarrow> JObj [(''json'', JObj [(''error'', JStr (errorMessage error))])])"
    by (simp add: output_of_def)
  have iso: "history_free env \<longrightarrow>
      (\<forall>i<length (getInputData h). \<forall>w'.
         ?out ! i =
           (case fst (process_item env (getCredentials h) server keypair np (getInputData h ! i) w') of
              Inr result \<Rightarrow> JObj [(''json'', result)]
            | Inl error \<Rightarrow> JObj [(''json'', JObj [(''error'', JStr (errorMessage error))])]))"
  proof (intro impI allI)
    fix i w'
    assume free: "history_free env" and i: "i < length (getInputData h)"
    from same_result_process_item [OF free]
    have "fst (process_item env (getCredentials h) server keypair np (getInputData h ! i)
                (item_worlds env (getCredentials h) server keypair np (getInputData h) w1 ! i)) =
          fst (process_item env (getCredentials h) server keypair np (getInputData h ! i) w')"
      by (simp add: same_result_def)
    with nth i show "?out ! i =
           (case fst (process_item env (getCredentials h) server keypair np (getInputData h ! i) w') of
              Inr result \<Rightarrow> JObj [(''json'', result)]
            | Inl error \<Rightarrow> JObj [(''json'', JObj [(''error'', JStr (errorMessage error))])])"
      by (simp add: output_of_def)
  qed
  from ex len nth iso show ?thesis by blast
qed

lemma setup_testnet:
  "getCredentials h = cred_testnet \<Longrightarrow>
   execute_setup quiet_sdk sdk_networks h empty_world =
     (Inr (JNull, None, ''Test SDF Network ; September 2015''), world_after_setup)"
  by (simp add: execute_setup_def logLicensingNotice_def empty_world_def andThen_apply
      liftE_apply getHorizonUrl_def getNetworkPassphrase_def ext_apply quiet_sdk_def keypairOf_def
      ret_apply cred_testnet_def sdk_networks_def world_after_setup_def)

lemma three_items_steps:
  "process_item quiet_sdk cred_testnet JNull None ''Test SDF Network ; September 2015''
      item_xlm_info world_after_setup = (Inr native_asset_info, world_after_setup)"
  "process_item quiet_sdk cred_testnet JNull None ''Test SDF Network ; September 2015''
      item_sendPayment world_after_setup =
        (Inl (JsError ''Secret key required for payments''), world_after_setup)"
  "process_item quiet_sdk cred_testnet JNull None ''Test SDF Network ; September 2015''
      item_usdc_info world_after_setup = (Inr native_asset_info, world_after_setup)"
  by (simp_all add: process_item_def getNodeParameter_def item_xlm_info_def item_sendPayment_def
      item_usdc_info_def asset_ops_def payment_ops_def getAssetInfo_def ret_apply no_key
      secretKeyRequired_apply)

text \<open>
  C2, witness: three items on testnet without a secret key, the second a payment. The
  outputs are the native payload, the error of the missing key, the native payload.
\<close>

theorem execute_tolerant_witness:
  "continueOnFail host_tolerant \<and>
   history_free quiet_sdk \<and>
   execute_setup quiet_sdk sdk_networks host_tolerant empty_world =
     (Inr (JNull, None, ''Test SDF Network ; September 2015''), world_after_setup) \<and>
   length (getInputData host_tolerant) = 3 \<and>
   execute quiet_sdk sdk_networks host_tolerant empty_world =
     (Inr [ [JObj [(''json'', native_asset_info)],
            JObj [(''json'', JObj [(''error'', JStr ''Secret key required for payments'')])],
            JObj [(''json'', native_asset_info)]]],
      world_after_setup)"
proof -
  have h1: "continueOnFail host_tolerant"
    by (simp add: host_tolerant_def)
  have h2: "execute_setup quiet_sdk sdk_networks host_tolerant empty_world =
     (Inr (JNull, None, ''Test SDF Network ; September 2015''), world_after_setup)"
    by (rule setup_testnet) (simp add: host_tolerant_def)
  from execute_tolerant [OF h1 h2] obtain out w2 where
    ex: "execute quiet_sdk sdk_networks host_tolerant empty_world = (Inr [out], w2)"
    and len: "length out = length (getInputData host_tolerant)"
    by blast
  have "execute quiet_sdk sdk_networks host_tolerant empty_world =
     (Inr [ [JObj [(''json'', native_asset_info)],
            JObj [(''json'', JObj [(''error'', JStr ''Secret key required for payments'')])],
            JObj [(''json'', native_asset_info)]]],
      world_after_setup)"
    unfolding execute_after_setup [OF h2]
    by (simp add: host_tolerant_def three_items_def three_items_steps ok_item_def error_item_def ret_apply)
  moreover have "history_free quiet_sdk"
    by (simp add: history_free_def quiet_sdk_def)
  ultimately show ?thesis using ex len h1 h2 by auto
qed

text \<open>
  C2, counterexample to the claim as stated: with the tolerate-failures mode enabled, on
  a custom network whose Horizon URL is left empty, \<open>execute\<close> throws the
  configuration error before the loop and returns no output for its one input item.
\<close>

theorem execute_tolerant_counterexample:
  "continueOnFail host_custom_blank \<and>
   length (getInputData host_custom_blank) = 1 \<and>
   execute quiet_sdk sdk_networks host_custom_blank empty_world =
     (Inl (JsError ''Custom Horizon URL required for custom network''),
      \<lparr>calls = [Call ''console.warn'' [JStr licensing_notice]],
       globals = [''stellar.licensing.logged''], streams = []\<rparr>)"
  by (simp add: host_custom_blank_def cred_custom_blank_def execute_def execute_setup_def
      logLicensingNotice_def empty_world_def andThen_apply liftE_apply getHorizonUrl_def)

text \<open>
  C6. Let the tolerate-failures mode be off and the set-up succeed. If the k-th item is
  the first whose processing throws, \<open>execute\<close> throws that same error and returns no
  results; the world it leaves is the one the k-th item has left, so that no later
  item is processed.
\<close>

theorem execute_strict_aborts:
  assumes "\<not> continueOnFail h"
    and "execute_setup env sdkn h w = (Inr (server, keypair, np), w1)"
    and "k < length (getInputData h)"
    and "\<forall>j<k. \<not> isl (fst (process_item env (getCredentials h) server keypair np (getInputData h ! j)
                  (item_worlds env (getCredentials h) server keypair np (getInputData h) w1 ! j)))"
    and "fst (process_item env (getCredentials h) server keypair np (getInputData h ! k)
                  (item_worlds env (getCredentials h) server keypair np (getInputData h) w1 ! k)) = Inl e"
  shows "execute env sdkn h w =
     (Inl e, snd (process_item env (getCredentials h) server keypair np (getInputData h ! k)
                  (item_worlds env (getCredentials h) server keypair np (getInputData h) w1 ! k)))"
  unfolding execute_after_setup [OF assms(2)]
  using assms(1) execute_loop_strict [OF assms(3,4,5)] by simp

text \<open>
  C6, witness: the three items again, without the tolerate-failures mode. The first item
  returns, the second throws the error of the missing key, and \<open>execute\<close> throws it
  in the world the set-up has left: nothing was done for the third item.
\<close>

theorem execute_strict_aborts_witness:
  "\<not> continueOnFail host_strict \<and>
   execute_setup quiet_sdk sdk_networks host_strict empty_world =
     (Inr (JNull, None, ''Test SDF Network ; September 2015''), world_after_setup) \<and>
   (1::nat) < length (getInputData host_strict) \<and>
   \<not> isl (fst (process_item quiet_sdk cred_testnet JNull None ''Test SDF Network ; September 2015''
                  item_xlm_info world_after_setup)) \<and>
   fst (process_item quiet_sdk cred_testnet JNull None ''Test SDF Network ; September 2015''
          item_sendPayment world_after_setup) = Inl (JsError ''Secret key required for payments'') \<and>
   execute quiet_sdk sdk_networks host_strict empty_world =
     (Inl (JsError ''Secret key required for payments''), world_after_setup)"
proof -
  have h1: "\<not> continueOnFail host_strict"
    by (simp add: host_strict_def)
  have h2: "execute_setup quiet_sdk sdk_networks host_strict empty_world =
     (Inr (JNull, None, ''Test SDF Network ; September 2015''), world_after_setup)"
    by (rule setup_testnet) (simp add: host_strict_def)
  have h3: "(1::nat) < length (getInputData host_strict)"
    by (simp add: host_strict_def three_items_def)
  have ws: "item_worlds quiet_sdk (getCredentials host_strict) JNull None
              ''Test SDF Network ; September 2015'' (getInputData host_strict) world_after_setup =
            [world_after_setup, world_after_setup, world_after_setup]"
    by (simp add: host_strict_def three_items_def three_items_steps)
  have h4: "\<forall>j<1. \<not> isl (fst (process_item quiet_sdk (getCredentials host_strict) JNull None
              ''Test SDF Network ; September 2015'' (getInputData host_strict ! j)
              (item_worlds quiet_sdk (getCredentials host_strict) JNull None
                 ''Test SDF Network ; September 2015'' (getInputData host_strict) world_after_setup ! j)))"
    unfolding ws by (simp add: host_strict_def three_items_def three_items_steps)
  have h5: "fst (process_item quiet_sdk (getCredentials host_strict) JNull None
              ''Test SDF Network ; September 2015'' (getInputData host_strict ! 1)
              (item_worlds quiet_sdk (getCredentials host_strict) JNull None
                 ''Test SDF Network ; September 2015'' (getInputData host_strict) world_after_setup ! 1)) =
            Inl (JsError ''Secret key required for payments'')"
    unfolding ws by (simp add: host_strict_def three_items_def three_items_steps)
  have "execute quiet_sdk sdk_networks host_strict empty_world =
     (Inl (JsError ''Secret key required for payments''), world_after_setup)"
    using execute_strict_aborts [OF h1 h2 h3 h4 h5] unfolding ws
    by (simp add: host_strict_def three_items_def three_items_steps)
  with h1 h2 h3 show ?thesis by (simp add: three_items_steps)
qed

section \<open>The trigger\<close>

lemma andThen_Inr:
  assumes "andThen m f w = (Inr y, w2)"
  obtains x w1 where "m w = (Inr x, w1)" and "f x w1 = (Inr y, w2)"
  using assms by (auto simp add: andThen_def split: prod.splits sum.splits)

lemma logLicensingNotice_streams:
  "logLicensingNotice key w = (r, w1) \<Longrightarrow> streams w1 = streams w"
  by (auto simp add: logLicensingNotice_def split: if_splits)

lemma liftE_world: "liftE r w = (x, w1) \<Longrightarrow> w1 = w"
  by (simp add: liftE_def)

lemma ext_streams: "ext env name args w = (r, w1) \<Longrightarrow> streams w1 = streams w"
  by (auto simp add: ext_def)

lemma getNodeParameter_world: "getNodeParameter it name fallback w = (r, w1) \<Longrightarrow> w1 = w"
  by (auto simp add: getNodeParameter_def ret_def throw_def split: option.splits)

lemma streamBuilderOf_streams:
  "streamBuilderOf env server event accountId w = (r, w1) \<Longrightarrow> streams w1 = streams w"
  by (auto simp add: streamBuilderOf_def throw_def dest: ext_streams split: if_splits)

lemma stream_Inr:
  "stream env streamBuilder cursor w = (Inr handle, w1) \<Longrightarrow>
     handle = length (streams w) \<and> streams w1 = streams w @ [True]"
  by (auto simp add: stream_def split: sum.splits)

lemma startStreaming_Inr:
  assumes "startStreaming env server event accountId cursor w = (Inr closeFunction, w1)"
  shows "closeFunction = Some (length (streams w)) \<and> streams w1 = streams w @ [True]"
proof -
  from assms obtain streamBuilder wa where
    a: "streamBuilderOf env server event accountId w = (Inr streamBuilder, wa)"
    and b: "andThen (stream env streamBuilder cursor) (\<lambda>handle. ret (Some handle)) wa =
              (Inr closeFunction, w1)"
    unfolding startStreaming_def by (rule andThen_Inr)
  from b obtain handle wb where
    c: "stream env streamBuilder cursor wa = (Inr handle, wb)"
    and d: "ret (Some handle) wb = (Inr closeFunction, w1)"
    by (rule andThen_Inr)
  from streamBuilderOf_streams [OF a] stream_Inr [OF c] d show ?thesis
    by (simp add: ret_def)
qed

lemma trigger_Inr:
  assumes "trigger env h w = (Inr closeFunction, w1)"
  shows "closeFunction = Some (length (streams w)) \<and> streams w1 = streams w @ [True]"
proof -
  from assms obtain u1 wa where
    a: "logLicensingNotice ''stellarTrigger.licensing.logged'' w = (Inr u1, wa)"
    and r1: "andThen (liftE (getHorizonUrl (network (triggerCredentials h))
                       (customHorizonUrl (triggerCredentials h)))) (\<lambda>horizonUrl.
     andThen (ext env ''new Horizon.Server'' [JStr horizonUrl]) (\<lambda>server.
     andThen (getNodeParameter (triggerParameters h) ''event'' None) (\<lambda>event.
     andThen (getNodeParameter (triggerParameters h) ''accountId'' (Some (JStr []))) (\<lambda>accountId.
     andThen (getNodeParameter (triggerParameters h) ''cursor'' None) (\<lambda>cursor.
     startStreaming env server event accountId cursor))))) wa = (Inr closeFunction, w1)"
    unfolding trigger_def by (rule andThen_Inr)
  from r1 obtain horizonUrl wb where
    b: "liftE (getHorizonUrl (network (triggerCredentials h))
                       (customHorizonUrl (triggerCredentials h))) wa = (Inr horizonUrl, wb)"
    and r2: "andThen (ext env ''new Horizon.Server'' [JStr horizonUrl]) (\<lambda>server.
     andThen (getNodeParameter (triggerParameters h) ''event'' None) (\<lambda>event.
     andThen (getNodeParameter (triggerParameters h) ''accountId'' (Some (JStr []))) (\<lambda>accountId.
     andThen (getNodeParameter (triggerParameters h) ''cursor'' None) (\<lambda>cursor.
     startStreaming env server event accountId cursor)))) wb = (Inr closeFunction, w1)"
    by (rule andThen_Inr)
  from r2 obtain server wc where
    c: "ext env ''new Horizon.Server'' [JStr horizonUrl] wb = (Inr server, wc)"
    and r3: "andThen (getNodeParameter (triggerParameters h) ''event'' None) (\<lambda>event.
     andThen (getNodeParameter (triggerParameters h) ''accountId'' (Some (JStr []))) (\<lambda>accountId.
     andThen (getNodeParameter (triggerParameters h) ''cursor'' None) (\<lambda>cursor.
     startStreaming env server event accountId cursor))) wc = (Inr closeFunction, w1)"
    by (rule andThen_Inr)
  from r3 obtain event wd where
    d: "getNodeParameter (triggerParameters h) ''event'' None wc = (Inr event, wd)"
    and r4: "andThen (getNodeParameter (triggerParameters h) ''accountId'' (Some (JStr []))) (\<lambda>accountId.
     andThen (getNodeParameter (triggerParameters h) ''cursor'' None) (\<lambda>cursor.
     startStreaming env server event accountId cursor)) wd = (Inr closeFunction, w1)"
    by (rule andThen_Inr)
  from r4 obtain accountId we where
    e: "getNodeParameter (triggerParameters h) ''accountId'' (Some (JStr [])) wd = (Inr accountId, we)"
    and r5: "andThen (getNodeParameter (triggerParameters h) ''cursor'' None) (\<lambda>cursor.
     startStreaming env server event accountId cursor) we = (Inr closeFunction, w1)"
    by (rule andThen_Inr)
  from r5 obtain cursor wf where
    f: "getNodeParameter (triggerParameters h) ''cursor'' None we = (Inr cursor, wf)"
    and g: "startStreaming env server event accountId cursor wf = (Inr closeFunction, w1)"
    by (rule andThen_Inr)
  have "streams wf = streams w"
    using logLicensingNotice_streams [OF a] liftE_world [OF b] ext_streams [OF c]
      getNodeParameter_world [OF d] getNodeParameter_world [OF e] getNodeParameter_world [OF f]
    by simp
  with startStreaming_Inr [OF g] show ?thesis by simp
qed

text \<open>
  The activation itself returns when the Horizon URL resolves, the event is one of the
  six of the node description, the cursor is set and no call into the SDK throws.
\<close>

lemma trigger_returns:
  assumes "\<forall>log c. \<not> isl (env log c)"
    and "\<not> isl (getHorizonUrl (network (triggerCredentials h)) (customHorizonUrl (triggerCredentials h)))"
    and "triggerParameters h ''event'' = Some event"
    and "event \<in> set [JStr ''effects'', JStr ''ledgers'', JStr ''operations'', JStr ''payments'',
                       JStr ''trades'', JStr ''transactions'']"
    and "triggerParameters h ''cursor'' = Some cursor"
  shows "\<not> isl (fst (trigger env h w))"
proof -
  have env: "env = (\<lambda>log c. Inr (projr (env log c)))"
  proof (intro ext)
    fix log c
    from assms(1) have "\<not> isl (env log c)" by blast
    then show "env log c = Inr (projr (env log c))" by (cases "env log c") simp_all
  qed
  from assms(2) obtain horizonUrl where url:
    "getHorizonUrl (network (triggerCredentials h)) (customHorizonUrl (triggerCredentials h)) = Inr horizonUrl"
    by (cases "getHorizonUrl (network (triggerCredentials h)) (customHorizonUrl (triggerCredentials h))")
       simp_all
  show ?thesis
    using assms(4)
    apply (subst env)
    apply (cases "triggerParameters h ''accountId''")
    apply (auto simp add: trigger_def logLicensingNotice_def andThen_apply liftE_apply url ext_apply
        getNodeParameter_def assms(3,5) ret_apply startStreaming_def streamBuilderOf_def stream_def)
    done
qed

text \<open>
  C5. When \<open>trigger\<close> returns, \<open>startStreaming\<close> has assigned \<open>closeFunction\<close>: it is
  the close function of the one subscription that the activation has opened. The
  teardown callback then invokes it once, does not throw and leaves that subscription
  closed; if no subscription was open before the activation, none is open after the
  teardown. In general the callback invokes the close function exactly when it is
  defined, and changes nothing when it is undefined.
\<close>

theorem trigger_teardown:
  assumes "trigger env h w = (Inr closeFunction, w1)"
  shows "closeFunction = Some (length (streams w)) \<and>
         streams w1 = streams w @ [True] \<and>
         closeCallback closeFunction w1 =
           (Inr (), w1\<lparr>calls := calls w1 @ [Call ''closeFunction'' [JNum (int (length (streams w)))]],
                        streams := streams w @ [False]\<rparr>) \<and>
         (True \<notin> set (streams w) \<longrightarrow> True \<notin> set (streams (snd (closeCallback closeFunction w1)))) \<and>
         (\<forall>handle w'. closeCallback (Some handle) w' = invokeClose handle w') \<and>
         (\<forall>w'. closeCallback None w' = (Inr (), w'))"
  using trigger_Inr [OF assms]
  by (simp add: closeCallback_def invokeClose_def ret_def)

lemma trigger_payments:
  "trigger quiet_sdk host_payments empty_world = (Inr (Some 0), world_streaming)"
  by (simp add: trigger_def logLicensingNotice_def empty_world_def andThen_apply liftE_apply
      getHorizonUrl_def ext_apply quiet_sdk_def host_payments_def cred_testnet_def
      getNodeParameter_def ret_apply startStreaming_def streamBuilderOf_def stream_def
      world_streaming_def)

text \<open>
  C5, witness: a trigger on the payments of testnet, from the cursor "now"; the teardown
  follows at once.
\<close>

theorem trigger_teardown_witness:
  "trigger quiet_sdk host_payments empty_world = (Inr (Some 0), world_streaming) \<and>
   streams world_streaming = [True] \<and>
   closeCallback (Some 0) world_streaming =
     (Inr (), world_streaming\<lparr>calls := calls world_streaming @ [Call ''closeFunction'' [JNum 0]],
                               streams := [False]\<rparr>)"
proof -
  note t = trigger_teardown [OF trigger_payments]
  have opened: "streams world_streaming = streams empty_world @ [True]"
    using t by blast
  have closed: "closeCallback (Some 0) world_streaming =
      (Inr (), world_streaming\<lparr>calls := calls world_streaming @
                                  [Call ''closeFunction'' [JNum (int (length (streams empty_world)))]],
                                streams := streams empty_world @ [False]\<rparr>)"
    using t by blast
  from opened closed trigger_payments show ?thesis
    by (simp add: empty_world_def)
qed

text \<open>
  C7. The error handler of the stream writes the error to the console and does nothing
  else: the subscriptions are as they were (none is closed), the close function is not
  invoked and no call goes to the network (no new subscription is opened).
\<close>

theorem onerror_only_logs:
  "onerror error w =
     (Inr (), w\<lparr>calls := calls w @
                  [Call ''console.error'' [JStr ''Stellar stream error:'', JStr (errorMessage error)]]\<rparr>) \<and>
   streams (snd (onerror error w)) = streams w \<and>
   globals (snd (onerror error w)) = globals w \<and>
   network_calls_of (snd (onerror error w)) = network_calls_of w \<and>
   filter (\<lambda>c. case c of Call name args \<Rightarrow> name = ''closeFunction'') (calls (snd (onerror error w))) =
     filter (\<lambda>c. case c of Call name args \<Rightarrow> name = ''closeFunction'') (calls w)"
  by (simp add: onerror_def network_calls_of_def network_calls_def)

text \<open>C7, witness: an error delivered while the payments of testnet are streamed.\<close>

theorem onerror_only_logs_witness:
  "streams (snd (onerror (JsError ''connection lost'') world_streaming)) = [True] \<and>
   network_calls_of (snd (onerror (JsError ''connection lost'') world_streaming)) =
     network_calls_of world_streaming"
  using onerror_only_logs [of "JsError ''connection lost''" world_streaming]
  by (simp add: world_streaming_def onerror_def)

section \<open>The network configuration that \<open>execute\<close> uses\<close>

subsection \<open>The calls that a computation appends\<close>

lemma appendsI:
  assumes "\<And>w. \<exists>cs. calls (snd (m w)) = calls w @ cs \<and> list_all P cs"
  shows "appends P m"
  using assms by (simp add: appends_def)

lemma appendsD:
  assumes "appends P m"
  obtains cs where "calls (snd (m w)) = calls w @ cs" and "list_all P cs"
  using assms unfolding appends_def by blast

lemma appends_ret: "appends P (ret x)"
  by (simp add: appends_def ret_def)

lemma appends_throw: "appends P (throw e)"
  by (simp add: appends_def throw_def)

lemma appends_liftE: "appends P (liftE r)"
  by (simp add: appends_def liftE_def)

lemma appends_ext: "P (Call name args) \<Longrightarrow> appends P (ext env name args)"
  by (simp add: appends_def ext_def)

lemma appends_andThen:
  assumes "appends P m" and "\<And>x. appends P (f x)"
  shows "appends P (andThen m f)"
proof (rule appendsI)
  fix w
  obtain r w1 where mw: "m w = (r, w1)" by (cases "m w")
  from assms(1) obtain cs1 where cs1: "calls (snd (m w)) = calls w @ cs1" "list_all P cs1"
    by (rule appendsD)
  show "\<exists>cs. calls (snd (andThen m f w)) = calls w @ cs \<and> list_all P cs"
  proof (cases r)
    case (Inl e)
    with mw cs1 show ?thesis by (auto simp add: andThen_def)
  next
    case (Inr x)
    from assms(2) [of x] obtain cs2 where
      cs2: "calls (snd (f x w1)) = calls w1 @ cs2" "list_all P cs2"
      by (rule appendsD)
    from mw Inr have "andThen m f w = f x w1" by (simp add: andThen_def)
    with mw cs1 cs2 have "calls (snd (andThen m f w)) = calls w @ (cs1 @ cs2)" by simp
    moreover from cs1 cs2 have "list_all P (cs1 @ cs2)" by simp
    ultimately show ?thesis by blast
  qed
qed

lemma appends_if:
  "(c \<Longrightarrow> appends P a) \<Longrightarrow> (\<not> c \<Longrightarrow> appends P b) \<Longrightarrow> appends P (if c then a else b)"
  by simp

lemma appends_option:
  "(k = None \<Longrightarrow> appends P a) \<Longrightarrow> (\<And>x. k = Some x \<Longrightarrow> appends P (b x)) \<Longrightarrow>
     appends P (case k of None \<Rightarrow> a | Some x \<Rightarrow> b x)"
  by (cases k) simp_all

lemma appends_getNodeParameter: "appends P (getNodeParameter it name fallback)"
  by (simp add: getNodeParameter_def appends_ret appends_throw split: option.splits)

lemma appends_getProp: "appends P (getProp v k)"
  by (simp add: getProp_def appends_ret appends_throw split: json.splits)

lemma appends_index0: "appends P (index0 v)"
  by (simp add: index0_def appends_ret appends_throw split: json.splits)

lemma appends_lengthPositive: "appends P (lengthPositive v)"
  by (simp add: lengthPositive_def appends_ret appends_throw split: json.splits)

lemma appends_secretKeyRequired: "appends P (secretKeyRequired suffix)"
  by (simp add: secretKeyRequired_def appends_throw)

lemma appends_mapM_io:
  "(\<And>x. appends P (f x)) \<Longrightarrow> appends P (mapM_io f xs)"
  by (induction xs) (simp_all add: appends_ret appends_andThen)

lemma appends_array_map:
  "(\<And>x. appends P (f x)) \<Longrightarrow> appends P (array_map name f v)"
  by (simp add: array_map_def appends_mapM_io appends_throw split: json.splits)

lemma appends_mono:
  assumes "appends P m" and "\<And>c. P c \<Longrightarrow> Q c"
  shows "appends Q m"
proof (rule appendsI)
  fix w
  from assms(1) obtain cs where cs: "calls (snd (m w)) = calls w @ cs" "list_all P cs"
    by (rule appendsD)
  from cs(2) assms(2) have "list_all Q cs" by (auto simp add: list_all_iff)
  with cs(1) show "\<exists>cs. calls (snd (m w)) = calls w @ cs \<and> list_all Q cs" by blast
qed

lemmas appends_intros =
  appends_ret appends_throw appends_liftE appends_andThen appends_if appends_option
  appends_getNodeParameter appends_getProp appends_index0 appends_lengthPositive
  appends_secretKeyRequired appends_mapM_io appends_array_map

lemmas call_names = horizon_calls_def soroban_calls_def

lemma conforms_helpers:
  "appends (conforms server np ss) (publicKey env kp)"
  "appends (conforms server np ss) (loadAccount env server kp)"
  "appends (conforms server np ss) (newTransactionBuilder env sourceAccount np)"
  "appends (conforms server np ss) (addOperation env builder op)"
  "appends (conforms server np ss) (setTimeout_build env builder)"
  "appends (conforms server np ss) (sign env transaction kp)"
  "appends (conforms server np ss) (submitTransaction env server transaction)"
  "appends (conforms server np ss) (assetOf env code issuer)"
  "appends (conforms server np ss) (toScVal env arg)"
  by (auto simp add: publicKey_def loadAccount_def newTransactionBuilder_def addOperation_def
      setTimeout_build_def sign_def submitTransaction_def assetOf_def toScVal_def call_names
      intro!: appends_intros appends_ext split: json.splits)

lemma conforms_submitOperation:
  assumes "appends (conforms server np ss) mkop"
  shows "appends (conforms server np ss) (submitOperation env server kp np mkop)"
  unfolding submitOperation_def
  by (intro appends_andThen conforms_helpers assms)

lemmas conforms_steps =
  appends_intros conforms_helpers conforms_submitOperation appends_ext

lemma appends_prod:
  "(\<And>a b. appends P (f a b)) \<Longrightarrow> appends P (case x of (a, b) \<Rightarrow> f a b)"
  by (cases x) simp

lemma conforms_account_ops:
  "appends (conforms server np ss) (account_ops env net server keypair np operation it)"
  unfolding account_ops_def generateKeypair_def getInfo_def fundTestnet_def
      createAccount_def mergeAccount_def setData_def setOptions_def
  by (intro conforms_steps appends_prod; simp add: call_names)

lemma conforms_payment_ops:
  "appends (conforms server np ss) (payment_ops env server keypair np operation it)"
  unfolding payment_ops_def sendPayment_def pathPayment_def createClaimableBalance_def
      claimBalance_def
  by (intro conforms_steps; simp add: call_names)

lemma conforms_asset_ops:
  "appends (conforms server np ss) (asset_ops env server keypair np operation it)"
  unfolding asset_ops_def changeTrust_def getAssetInfo_def issueAsset_def
  by (intro conforms_steps; simp add: call_names)

lemma conforms_dex_ops:
  "appends (conforms server np ss) (dex_ops env server keypair np operation it)"
  unfolding dex_ops_def getOrderbook_def createSellOffer_def createBuyOffer_def
      createOffer_def cancelOffer_def listOffers_def getTrades_def
  by (intro conforms_steps; simp add: call_names)

lemma conforms_transaction_ops:
  "appends (conforms server np ss) (transaction_ops env server keypair np operation it)"
  unfolding transaction_ops_def getTransaction_def signXdr_def submitXdr_def
  by (intro conforms_steps; simp add: call_names)

lemma conforms_ledger_ops:
  "appends (conforms server np ss) (ledger_ops env server operation it)"
  unfolding ledger_ops_def getLatest_def getBySequence_def getFeeStats_def
  by (intro conforms_steps; simp add: call_names)

lemma conforms_contractCall:
  "appends (conforms server np (Some sorobanServer))
     (contractCall env sorobanServer keypair np operation it)"
  unfolding contractCall_def
  by (intro conforms_steps; simp add: call_names)

lemma rpcUrlOf_spec: "rpcUrlOf cred = soroban_rpc_url cred"
  by (cases "sorobanRpcUrl cred") (simp_all add: rpcUrlOf_def soroban_rpc_url_def getSorobanRpcUrl_def)

lemma appends_process_item_no_selector:
  assumes "it ''resource'' = None \<or> it ''operation'' = None"
  shows "appends P (process_item env cred server keypair np it)"
  using assms
  by (cases "it ''resource''")
     (auto simp add: process_item_def getNodeParameter_def appends_throw)

lemma conforms_process_item_plain:
  assumes "it ''resource'' \<noteq> Some (JStr ''soroban'')"
  shows "appends (conforms server np None) (process_item env cred server keypair np it)"
proof (cases "it ''resource'' = None \<or> it ''operation'' = None")
  case True
  then show ?thesis by (rule appends_process_item_no_selector)
next
  case False
  then obtain resource operation where
    sel: "it ''resource'' = Some resource" "it ''operation'' = Some operation"
    by auto
  from sel(1) assms have "resource \<noteq> JStr ''soroban''" by simp
  then show ?thesis
    unfolding process_item_dispatch [OF sel]
    by (simp add: conforms_account_ops conforms_payment_ops conforms_asset_ops conforms_dex_ops
        conforms_transaction_ops conforms_ledger_ops appends_throw)
qed

lemma conforms_soroban_branches:
  "appends (conforms server np (Some sorobanServer))
     (if operation = JStr ''getHealth'' then ext env ''sorobanServer.getHealth'' [sorobanServer]
      else if operation = JStr ''simulateTransaction'' \<or> operation = JStr ''invokeContract'' then
        contractCall env sorobanServer keypair np operation it
      else throw (JsError (''Unknown soroban operation: '' @ toStr operation)))"
  by (intro appends_if appends_ext appends_throw conforms_contractCall; simp add: call_names)

lemma process_item_soroban:
  assumes "it ''resource'' = Some (JStr ''soroban'')" and "it ''operation'' = Some operation"
  shows "case soroban_rpc_url cred of
           Inl e \<Rightarrow> process_item env cred server keypair np it w = (Inl e, w)
         | Inr u \<Rightarrow>
             (\<exists>cs. calls (snd (process_item env cred server keypair np it w)) =
                     calls w @ Call ''new SorobanRpc.Server'' [JStr u] # cs \<and>
                   list_all (conforms server np
                     (case env (calls w) (Call ''new SorobanRpc.Server'' [JStr u]) of
                        Inr s \<Rightarrow> Some s | Inl t \<Rightarrow> None)) cs)"
proof (cases "soroban_rpc_url cred")
  case (Inl e)
  then show ?thesis
    by (simp add: process_item_dispatch [OF assms] soroban_ops_def rpcUrlOf_spec liftE_def
        andThen_def)
next
  case (Inr u)
  let ?ctor = "Call ''new SorobanRpc.Server'' [JStr u]"
  let ?w1 = "w\<lparr>calls := calls w @ [?ctor]\<rparr>"
  show ?thesis
  proof (cases "env (calls w) ?ctor")
    case (Inl t)
    with Inr have "process_item env cred server keypair np it w = (Inl t, ?w1)"
      by (simp add: process_item_dispatch [OF assms] soroban_ops_def rpcUrlOf_spec liftE_def
          andThen_def ext_def)
    with Inr Inl show ?thesis by simp
  next
    case (Inr s)
    let ?rest = "if operation = JStr ''getHealth'' then ext env ''sorobanServer.getHealth'' [s]
      else if operation = JStr ''simulateTransaction'' \<or> operation = JStr ''invokeContract'' then
        contractCall env s keypair np operation it
      else throw (JsError (''Unknown soroban operation: '' @ toStr operation))"
    from \<open>soroban_rpc_url cred = Inr u\<close> Inr
    have eq: "process_item env cred server keypair np it w = ?rest ?w1"
      by (simp add: process_item_dispatch [OF assms] soroban_ops_def rpcUrlOf_spec liftE_def
          andThen_def ext_def)
    from conforms_soroban_branches [where server = server and np = np and sorobanServer = s
        and operation = operation and env = env and keypair = keypair and it = it]
    obtain cs where cs: "calls (snd (?rest ?w1)) = calls ?w1 @ cs"
      "list_all (conforms server np (Some s)) cs"
      by (rule appendsD)
    from eq cs(1) have "calls (snd (process_item env cred server keypair np it w)) =
        calls w @ ?ctor # cs"
      by simp
    with cs(2) Inr \<open>soroban_rpc_url cred = Inr u\<close> show ?thesis by simp
  qed
qed

lemma conforms_uses_config: "conforms server np ss c \<Longrightarrow> uses_config cred server np c"
  by (cases c) simp

lemma uses_config_process_item:
  "appends (uses_config cred server np) (process_item env cred server keypair np it)"
proof (cases "it ''resource'' = Some (JStr ''soroban'')")
  case False
  from False have "appends (conforms server np None) (process_item env cred server keypair np it)"
    by (rule conforms_process_item_plain)
  then show ?thesis
    by (rule appends_mono) (rule conforms_uses_config)
next
  case True
  show ?thesis
  proof (cases "it ''operation''")
    case None
    then have "it ''resource'' = None \<or> it ''operation'' = None" by simp
    then show ?thesis by (rule appends_process_item_no_selector)
  next
    case (Some operation)
    show ?thesis
    proof (rule appendsI)
      fix w
      note st = process_item_soroban [OF True Some, where cred = cred and env = env and server = server
        and keypair = keypair and np = np and w = w]
      show "\<exists>cs. calls (snd (process_item env cred server keypair np it w)) = calls w @ cs \<and>
                 list_all (uses_config cred server np) cs"
      proof (cases "soroban_rpc_url cred")
        case (Inl e)
        with st have "process_item env cred server keypair np it w = (Inl e, w)" by simp
        then show ?thesis by simp
      next
        case (Inr u)
        with st obtain cs where
          cs: "calls (snd (process_item env cred server keypair np it w)) =
                 calls w @ Call ''new SorobanRpc.Server'' [JStr u] # cs"
          and ok: "list_all (conforms server np
                     (case env (calls w) (Call ''new SorobanRpc.Server'' [JStr u]) of
                        Inr s \<Rightarrow> Some s | Inl t \<Rightarrow> None)) cs"
          by auto
        from ok have "list_all (uses_config cred server np) cs"
          by (auto simp add: list_all_iff intro: conforms_uses_config)
        moreover have "uses_config cred server np (Call ''new SorobanRpc.Server'' [JStr u])"
          using Inr by (simp add: call_names)
        ultimately have "list_all (uses_config cred server np)
            (Call ''new SorobanRpc.Server'' [JStr u] # cs)"
          by simp
        with cs show ?thesis by blast
      qed
    qed
  qed
qed

lemma uses_config_execute_loop:
  "appends (uses_config cred server np)
     (execute_loop env cred server keypair np cof its acc)"
proof (induction its arbitrary: acc)
  case Nil
  show ?case by (simp add: appends_ret)
next
  case (Cons it its)
  show ?case
  proof (rule appendsI)
    fix w
    obtain r w1 where step: "process_item env cred server keypair np it w = (r, w1)"
      by (cases "process_item env cred server keypair np it w")
    from uses_config_process_item [where cred = cred and server = server and np = np and env = env
        and keypair = keypair and it = it]
    obtain cs1 where cs1: "calls (snd (process_item env cred server keypair np it w)) = calls w @ cs1"
      "list_all (uses_config cred server np) cs1"
      by (rule appendsD)
    have rest: "\<And>acc'. \<exists>cs. calls (snd (execute_loop env cred server keypair np cof its acc' w1)) =
                      calls w @ cs \<and> list_all (uses_config cred server np) cs"
    proof -
      fix acc'
      from Cons.IH [of acc'] obtain cs2 where
        cs2: "calls (snd (execute_loop env cred server keypair np cof its acc' w1)) = calls w1 @ cs2"
        "list_all (uses_config cred server np) cs2"
        by (rule appendsD)
      from cs1 cs2 step have "calls (snd (execute_loop env cred server keypair np cof its acc' w1)) =
          calls w @ (cs1 @ cs2)" by simp
      moreover from cs1 cs2 have "list_all (uses_config cred server np) (cs1 @ cs2)" by simp
      ultimately show "\<exists>cs. calls (snd (execute_loop env cred server keypair np cof its acc' w1)) =
                      calls w @ cs \<and> list_all (uses_config cred server np) cs"
        by blast
    qed
    show "\<exists>cs. calls (snd (execute_loop env cred server keypair np cof (it # its) acc w)) =
               calls w @ cs \<and> list_all (uses_config cred server np) cs"
    proof (cases r)
      case (Inr result)
      with step rest [of "acc @ [ok_item result]"] show ?thesis by simp
    next
      case (Inl error)
      show ?thesis
      proof (cases cof)
        case True
        with Inl step rest [of "acc @ [error_item error]"] show ?thesis by simp
      next
        case False
        with Inl step cs1 show ?thesis by auto
      qed
    qed
  qed
qed

lemma uses_config_execute:
  assumes "execute_setup env sdkn h w = (Inr (server, keypair, np), w1)"
  shows "\<exists>cs. calls (snd (execute env sdkn h w)) = calls w1 @ cs \<and>
              list_all (uses_config (getCredentials h) server np) cs"
proof -
  from uses_config_execute_loop
    [where cred = "getCredentials h" and server = server and np = np and env = env
       and keypair = keypair and cof = "continueOnFail h" and its = "getInputData h" and acc = "[]"]
  obtain cs where cs: "calls (snd (execute_loop env (getCredentials h) server keypair np
      (continueOnFail h) (getInputData h) [] w1)) = calls w1 @ cs"
    "list_all (uses_config (getCredentials h) server np) cs"
    by (rule appendsD)
  have "calls (snd (execute env sdkn h w)) =
      calls (snd (execute_loop env (getCredentials h) server keypair np
      (continueOnFail h) (getInputData h) [] w1))"
    unfolding execute_after_setup [OF assms] by (simp split: prod.splits sum.splits)
  with cs show ?thesis by auto
qed

subsection \<open>The configuration\<close>

text \<open>
  C8 (amended). In every execution the Horizon URL and the passphrase are resolved before
  the loop: on a network other than custom they are the fixed constants of that network;
  on the custom network they are the custom Horizon URL and the custom passphrase, and
  \<open>execute\<close> fails with a configuration error, before any call over the network, when
  one of the two is absent or empty. Whatever the items and the keypair are, every call
  that \<open>execute\<close> makes after the set-up uses them: a call on the Horizon client is
  made on the client that the set-up has constructed, a transaction builder and the
  reading of an envelope take the passphrase of the set-up, and no other Horizon client
  is constructed. The Soroban RPC URL is resolved for a soroban item only: an item of
  another resource constructs no RPC client and makes no call on one. A soroban item
  first resolves the URL, which is the Soroban RPC URL of the credentials when that is
  set, on every network, and otherwise the fixed constant of the network, or a
  configuration error (and no call) on the custom network; it then constructs the RPC
  client for that URL, and every later call on an RPC client is made on the client
  that this construction has returned, with or without a keypair.
\<close>

theorem network_config_used:
  assumes "getCredentials h = cred"
  shows
    "(network cred \<noteq> Custom \<longrightarrow>
        execute_setup env sdkn h =
          andThen (logLicensingNotice ''stellar.licensing.logged'') (\<lambda>_.
          andThen (ext env ''new Horizon.Server'' [JStr (the (HORIZON_URLS (network cred)))]) (\<lambda>server.
          andThen (keypairOf env (secretKey cred)) (\<lambda>keypair.
          ret (server, keypair, the (NETWORK_PASSPHRASES sdkn (network cred))))))) \<and>
     (network cred = Custom \<and> truthy_opt (customHorizonUrl cred) \<and>
      truthy_opt (customNetworkPassphrase cred) \<longrightarrow>
        execute_setup env sdkn h =
          andThen (logLicensingNotice ''stellar.licensing.logged'') (\<lambda>_.
          andThen (ext env ''new Horizon.Server'' [JStr (the (customHorizonUrl cred))]) (\<lambda>server.
          andThen (keypairOf env (secretKey cred)) (\<lambda>keypair.
          ret (server, keypair, the (customNetworkPassphrase cred)))))) \<and>
     (network cred = Custom \<and>
      \<not> (truthy_opt (customHorizonUrl cred) \<and> truthy_opt (customNetworkPassphrase cred)) \<longrightarrow>
        fst (execute env sdkn h w) =
          Inl (JsError (if \<not> truthy_opt (customHorizonUrl cred)
                        then ''Custom Horizon URL required for custom network''
                        else ''Custom network passphrase required for custom network'')) \<and>
        network_calls_of (snd (execute env sdkn h w)) = network_calls_of w) \<and>
     rpcUrlOf cred =
       (if truthy_opt (sorobanRpcUrl cred) then Inr (the (sorobanRpcUrl cred))
        else if network cred = Custom then
          Inl (JsError ''Custom Soroban RPC URL required for custom network'')
        else Inr (the (SOROBAN_RPC_URLS (network cred)))) \<and>
     (execute_setup env sdkn h w = (Inr (server, keypair, np), w1) \<longrightarrow>
        (\<exists>cs. calls (snd (execute env sdkn h w)) = calls w1 @ cs \<and>
              list_all (uses_config cred server np) cs)) \<and>
     (it ''resource'' \<noteq> Some (JStr ''soroban'') \<longrightarrow>
        (\<exists>cs. calls (snd (process_item env cred srv kp p it v)) = calls v @ cs \<and>
              list_all (conforms srv p None) cs)) \<and>
     (it ''resource'' = Some (JStr ''soroban'') \<and> it ''operation'' = Some operation \<longrightarrow>
        (case soroban_rpc_url cred of
           Inl e \<Rightarrow> process_item env cred srv kp p it v = (Inl e, v)
         | Inr u \<Rightarrow>
             (\<exists>cs. calls (snd (process_item env cred srv kp p it v)) =
                     calls v @ Call ''new SorobanRpc.Server'' [JStr u] # cs \<and>
                   list_all (conforms srv p
                     (case env (calls v) (Call ''new SorobanRpc.Server'' [JStr u]) of
                        Inr s \<Rightarrow> Some s | Inl t \<Rightarrow> None)) cs)))"
proof (intro conjI impI)
  assume "network cred \<noteq> Custom"
  then show "execute_setup env sdkn h =
          andThen (logLicensingNotice ''stellar.licensing.logged'') (\<lambda>_.
          andThen (ext env ''new Horizon.Server'' [JStr (the (HORIZON_URLS (network cred)))]) (\<lambda>server.
          andThen (keypairOf env (secretKey cred)) (\<lambda>keypair.
          ret (server, keypair, the (NETWORK_PASSPHRASES sdkn (network cred))))))"
    by (simp add: execute_setup_def assms getHorizonUrl_def getNetworkPassphrase_def
        andThen_liftE_Inr)
next
  assume "network cred = Custom \<and> truthy_opt (customHorizonUrl cred) \<and>
      truthy_opt (customNetworkPassphrase cred)"
  then show "execute_setup env sdkn h =
          andThen (logLicensingNotice ''stellar.licensing.logged'') (\<lambda>_.
          andThen (ext env ''new Horizon.Server'' [JStr (the (customHorizonUrl cred))]) (\<lambda>server.
          andThen (keypairOf env (secretKey cred)) (\<lambda>keypair.
          ret (server, keypair, the (customNetworkPassphrase cred)))))"
    by (simp add: execute_setup_def assms getHorizonUrl_def getNetworkPassphrase_def
        andThen_liftE_Inr)
next
  assume c: "network cred = Custom \<and>
      \<not> (truthy_opt (customHorizonUrl cred) \<and> truthy_opt (customNetworkPassphrase cred))"
  then show "fst (execute env sdkn h w) =
          Inl (JsError (if \<not> truthy_opt (customHorizonUrl cred)
                        then ''Custom Horizon URL required for custom network''
                        else ''Custom network passphrase required for custom network''))"
    by (auto simp add: execute_def execute_setup_def assms getHorizonUrl_def getNetworkPassphrase_def
        andThen_apply liftE_apply logLicensingNotice_def)
  from c show "network_calls_of (snd (execute env sdkn h w)) = network_calls_of w"
    by (auto simp add: execute_def execute_setup_def assms getHorizonUrl_def getNetworkPassphrase_def
        andThen_apply liftE_apply logLicensingNotice_def network_calls_of_def network_calls_def)
next
  show "rpcUrlOf cred =
       (if truthy_opt (sorobanRpcUrl cred) then Inr (the (sorobanRpcUrl cred))
        else if network cred = Custom then
          Inl (JsError ''Custom Soroban RPC URL required for custom network'')
        else Inr (the (SOROBAN_RPC_URLS (network cred))))"
    by (cases "sorobanRpcUrl cred") (simp_all add: rpcUrlOf_def getSorobanRpcUrl_def)
next
  assume "execute_setup env sdkn h w = (Inr (server, keypair, np), w1)"
  from uses_config_execute [OF this] assms
  show "\<exists>cs. calls (snd (execute env sdkn h w)) = calls w1 @ cs \<and>
             list_all (uses_config cred server np) cs"
    by simp
next
  assume "it ''resource'' \<noteq> Some (JStr ''soroban'')"
  then have "appends (conforms srv p None) (process_item env cred srv kp p it)"
    by (rule conforms_process_item_plain)
  then obtain cs where "calls (snd (process_item env cred srv kp p it v)) = calls v @ cs"
    and "list_all (conforms srv p None) cs"
    by (rule appendsD)
  then show "\<exists>cs. calls (snd (process_item env cred srv kp p it v)) = calls v @ cs \<and>
                  list_all (conforms srv p None) cs"
    by blast
next
  assume sel: "it ''resource'' = Some (JStr ''soroban'') \<and> it ''operation'' = Some operation"
  then have res: "it ''resource'' = Some (JStr ''soroban'')"
    and op: "it ''operation'' = Some operation"
    by simp_all
  show "case soroban_rpc_url cred of
           Inl e \<Rightarrow> process_item env cred srv kp p it v = (Inl e, v)
         | Inr u \<Rightarrow>
             (\<exists>cs. calls (snd (process_item env cred srv kp p it v)) =
                     calls v @ Call ''new SorobanRpc.Server'' [JStr u] # cs \<and>
                   list_all (conforms srv p
                     (case env (calls v) (Call ''new SorobanRpc.Server'' [JStr u]) of
                        Inr s \<Rightarrow> Some s | Inl t \<Rightarrow> None)) cs)"
    by (rule process_item_soroban [OF res op])
qed

text \<open>
  C8, witness: on testnet with a Soroban RPC URL set. The Horizon client is constructed
  for the testnet constant and every call of the execution uses it and the testnet
  passphrase; a payment with a keypair makes no call on an RPC client; an
  \<open>invokeContract\<close> item with a keypair constructs the RPC client for the URL of the
  credentials and calls no other. On a custom network with both overrides the set-up
  uses them; with a blank Horizon URL \<open>execute\<close> fails with the configuration error.
\<close>

theorem network_config_used_witness:
  "getCredentials host_getHealth = cred_testnet_rpc \<and>
   network cred_testnet_rpc \<noteq> Custom \<and>
   execute_setup quiet_sdk sdk_networks host_getHealth empty_world =
     (Inr (JNull, None, ''Test SDF Network ; September 2015''), world_after_setup) \<and>
   rpcUrlOf cred_testnet_rpc = Inr ''https://rpc.example.com'' \<and>
   (\<exists>cs. calls (snd (execute quiet_sdk sdk_networks host_getHealth empty_world)) =
           calls world_after_setup @ cs \<and>
         list_all (uses_config cred_testnet_rpc JNull ''Test SDF Network ; September 2015'') cs) \<and>
   item_sendPayment ''resource'' \<noteq> Some (JStr ''soroban'') \<and>
   (\<exists>cs. calls (snd (process_item quiet_sdk cred_testnet_rpc JNull (Some JNull)
                      ''Test SDF Network ; September 2015'' item_sendPayment world_after_setup)) =
           calls world_after_setup @ cs \<and>
         list_all (conforms JNull ''Test SDF Network ; September 2015'' None) cs) \<and>
   item_invokeContract ''resource'' = Some (JStr ''soroban'') \<and>
   item_invokeContract ''operation'' = Some (JStr ''invokeContract'') \<and>
   soroban_rpc_url cred_testnet_rpc = Inr ''https://rpc.example.com'' \<and>
   (\<exists>cs. calls (snd (process_item quiet_sdk cred_testnet_rpc JNull (Some JNull)
                      ''Test SDF Network ; September 2015'' item_invokeContract world_after_setup)) =
           calls world_after_setup @ Call ''new SorobanRpc.Server'' [JStr ''https://rpc.example.com''] # cs \<and>
         list_all (conforms JNull ''Test SDF Network ; September 2015'' (Some JNull)) cs) \<and>
   getCredentials host_custom = cred_custom \<and>
   network cred_custom = Custom \<and> truthy_opt (customHorizonUrl cred_custom) \<and>
   truthy_opt (customNetworkPassphrase cred_custom) \<and>
   execute_setup quiet_sdk sdk_networks host_custom empty_world =
     (Inr (JNull, None, ''Custom Network ; January 2024''),
      \<lparr>calls = [Call ''console.warn'' [JStr licensing_notice],
                Call ''new Horizon.Server'' [JStr ''https://horizon.example.com'']],
       globals = [''stellar.licensing.logged''], streams = []\<rparr>) \<and>
   getCredentials host_custom_blank = cred_custom_blank \<and>
   network cred_custom_blank = Custom \<and> \<not> truthy_opt (customHorizonUrl cred_custom_blank) \<and>
   fst (execute quiet_sdk sdk_networks host_custom_blank empty_world) =
     Inl (JsError ''Custom Horizon URL required for custom network'')"
proof -
  have h: "getCredentials host_getHealth = cred_testnet_rpc"
    by (simp add: host_getHealth_def)
  have n: "network cred_testnet_rpc \<noteq> Custom"
    by (simp add: cred_testnet_rpc_def)
  have r1: "item_sendPayment ''resource'' \<noteq> Some (JStr ''soroban'')"
    by (simp add: item_sendPayment_def)
  have r2: "item_invokeContract ''resource'' = Some (JStr ''soroban'') \<and>
            item_invokeContract ''operation'' = Some (JStr ''invokeContract'')"
    by (simp add: item_invokeContract_def)
  have url: "soroban_rpc_url cred_testnet_rpc = Inr ''https://rpc.example.com''"
    by (simp add: soroban_rpc_url_def cred_testnet_rpc_def)
  note t = network_config_used [OF h, where env = quiet_sdk and sdkn = sdk_networks
      and w = empty_world and server = JNull and keypair = None
      and np = "''Test SDF Network ; September 2015''" and ?w1.0 = world_after_setup
      and srv = JNull and kp = "Some JNull" and p = "''Test SDF Network ; September 2015''"
      and v = world_after_setup]
  note t1 = t [where it = item_sendPayment and operation = JNull]
  note t2 = t [where it = item_invokeContract and operation = "JStr ''invokeContract''"]
  from t1 n have st: "execute_setup quiet_sdk sdk_networks host_getHealth =
          andThen (logLicensingNotice ''stellar.licensing.logged'') (\<lambda>_.
          andThen (ext quiet_sdk ''new Horizon.Server'' [JStr (the (HORIZON_URLS (network cred_testnet_rpc)))]) (\<lambda>server.
          andThen (keypairOf quiet_sdk (secretKey cred_testnet_rpc)) (\<lambda>keypair.
          ret (server, keypair, the (NETWORK_PASSPHRASES sdk_networks (network cred_testnet_rpc))))))"
    by blast
  from t1 have rpc: "rpcUrlOf cred_testnet_rpc =
       (if truthy_opt (sorobanRpcUrl cred_testnet_rpc) then Inr (the (sorobanRpcUrl cred_testnet_rpc))
        else if network cred_testnet_rpc = Custom then
          Inl (JsError ''Custom Soroban RPC URL required for custom network'')
        else Inr (the (SOROBAN_RPC_URLS (network cred_testnet_rpc))))"
    by blast
  have a: "execute_setup quiet_sdk sdk_networks host_getHealth empty_world =
      (Inr (JNull, None, ''Test SDF Network ; September 2015''), world_after_setup)"
    unfolding st
    by (simp add: logLicensingNotice_def empty_world_def andThen_apply ext_apply quiet_sdk_def
        keypairOf_def ret_apply cred_testnet_rpc_def sdk_networks_def world_after_setup_def)
  have b: "rpcUrlOf cred_testnet_rpc = Inr ''https://rpc.example.com''"
    unfolding rpc by (simp add: cred_testnet_rpc_def)
  from t1 a have c: "\<exists>cs. calls (snd (execute quiet_sdk sdk_networks host_getHealth empty_world)) =
           calls world_after_setup @ cs \<and>
         list_all (uses_config cred_testnet_rpc JNull ''Test SDF Network ; September 2015'') cs"
    by blast
  from t1 r1 have d: "\<exists>cs. calls (snd (process_item quiet_sdk cred_testnet_rpc JNull (Some JNull)
                      ''Test SDF Network ; September 2015'' item_sendPayment world_after_setup)) =
           calls world_after_setup @ cs \<and>
         list_all (conforms JNull ''Test SDF Network ; September 2015'' None) cs"
    by blast
  from t2 r2 have "case soroban_rpc_url cred_testnet_rpc of
           Inl e \<Rightarrow> process_item quiet_sdk cred_testnet_rpc JNull (Some JNull)
                      ''Test SDF Network ; September 2015'' item_invokeContract world_after_setup =
                    (Inl e, world_after_setup)
         | Inr u \<Rightarrow>
             (\<exists>cs. calls (snd (process_item quiet_sdk cred_testnet_rpc JNull (Some JNull)
                      ''Test SDF Network ; September 2015'' item_invokeContract world_after_setup)) =
                     calls world_after_setup @ Call ''new SorobanRpc.Server'' [JStr u] # cs \<and>
                   list_all (conforms JNull ''Test SDF Network ; September 2015''
                     (case quiet_sdk (calls world_after_setup) (Call ''new SorobanRpc.Server'' [JStr u]) of
                        Inr s \<Rightarrow> Some s | Inl t \<Rightarrow> None)) cs)"
    by blast
  then have e: "\<exists>cs. calls (snd (process_item quiet_sdk cred_testnet_rpc JNull (Some JNull)
                      ''Test SDF Network ; September 2015'' item_invokeContract world_after_setup)) =
           calls world_after_setup @ Call ''new SorobanRpc.Server'' [JStr ''https://rpc.example.com''] # cs \<and>
         list_all (conforms JNull ''Test SDF Network ; September 2015'' (Some JNull)) cs"
    by (simp add: url quiet_sdk_def)
  have hc: "getCredentials host_custom = cred_custom"
    by (simp add: host_custom_def)
  have nc: "network cred_custom = Custom \<and> truthy_opt (customHorizonUrl cred_custom) \<and>
      truthy_opt (customNetworkPassphrase cred_custom)"
    by (simp add: cred_custom_def)
  from network_config_used [OF hc, where env = quiet_sdk and sdkn = sdk_networks] nc
  have stc: "execute_setup quiet_sdk sdk_networks host_custom =
          andThen (logLicensingNotice ''stellar.licensing.logged'') (\<lambda>_.
          andThen (ext quiet_sdk ''new Horizon.Server'' [JStr (the (customHorizonUrl cred_custom))]) (\<lambda>server.
          andThen (keypairOf quiet_sdk (secretKey cred_custom)) (\<lambda>keypair.
          ret (server, keypair, the (customNetworkPassphrase cred_custom)))))"
    by blast
  have f: "execute_setup quiet_sdk sdk_networks host_custom empty_world =
     (Inr (JNull, None, ''Custom Network ; January 2024''),
      \<lparr>calls = [Call ''console.warn'' [JStr licensing_notice],
                Call ''new Horizon.Server'' [JStr ''https://horizon.example.com'']],
       globals = [''stellar.licensing.logged''], streams = []\<rparr>)"
    unfolding stc
    by (simp add: logLicensingNotice_def empty_world_def andThen_apply ext_apply quiet_sdk_def
        keypairOf_def ret_apply cred_custom_def)
  have hb: "getCredentials host_custom_blank = cred_custom_blank"
    by (simp add: host_custom_blank_def)
  have nb: "network cred_custom_blank = Custom \<and> \<not> truthy_opt (customHorizonUrl cred_custom_blank)"
    by (simp add: cred_custom_blank_def)
  from network_config_used [OF hb, where env = quiet_sdk and sdkn = sdk_networks
      and w = empty_world] nb
  have g: "fst (execute quiet_sdk sdk_networks host_custom_blank empty_world) =
      Inl (JsError (if \<not> truthy_opt (customHorizonUrl cred_custom_blank)
                    then ''Custom Horizon URL required for custom network''
                    else ''Custom network passphrase required for custom network''))"
    by blast
  with nb have g': "fst (execute quiet_sdk sdk_networks host_custom_blank empty_world) =
      Inl (JsError ''Custom Horizon URL required for custom network'')"
    by simp
  from h n a b c d r1 r2 url e hc nc f hb nb g' show ?thesis by blast
qed

text \<open>
  C8, counterexample to the claim as stated: on testnet, with a Soroban RPC URL set in the
  credentials, the RPC client of a \<open>getHealth\<close> item is constructed for that URL and
  not for the fixed constant of testnet.
\<close>

theorem network_config_counterexample:
  "network cred_testnet_rpc = Testnet \<and>
   getSorobanRpcUrl Testnet None = Inr ''https://soroban-testnet.stellar.org'' \<and>
   process_item quiet_sdk cred_testnet_rpc JNull None ''Test SDF Network ; September 2015''
     item_getHealth world_after_setup =
     (Inr JNull,
      world_after_setup\<lparr>calls := calls world_after_setup @
         [Call ''new SorobanRpc.Server'' [JStr ''https://rpc.example.com''],
          Call ''sorobanServer.getHealth'' [JNull]]\<rparr>) \<and>
   ''https://rpc.example.com'' \<noteq> ''https://soroban-testnet.stellar.org''"
  by (simp add: cred_testnet_rpc_def getSorobanRpcUrl_def process_item_def getNodeParameter_def
      item_getHealth_def soroban_ops_def rpcUrlOf_def andThen_apply liftE_apply ext_apply
      quiet_sdk_def world_after_setup_def)

end
